theory Spec2Isabelle
  imports Main
begin

section \<open>Data model\<close>

text \<open>
  The enum \<open>ShipmentStatus\<close> of the Prisma schema, as
  \<open>src/shipments/shipments.service.ts\<close> uses it.
\<close>

datatype ShipmentStatus = CREATED | RECORDING | PROCESSING | SEALED | FAILED

text \<open>
  The rows of the tables \<open>shipments\<close>, \<open>proof_videos\<close> and \<open>share_links\<close>
  (\<open>prisma/migrations/20260110145230_init/migration.sql\<close>). The primary keys are
  named \<open>shipment_id\<close>, \<open>video_id\<close> and \<open>link_id\<close> (all three are \<open>id\<close> in the
  source). Timestamps are integers (milliseconds, as a JavaScript \<open>Date\<close> compares);
  the columns \<open>createdAt\<close> and \<open>updatedAt\<close> are bookkeeping that no operation below
  reads, and are left out.
\<close>

record Shipment =
  shipment_id :: string
  awb :: string
  status :: ShipmentStatus
  organizationId :: string
  createdById :: string

record ProofVideo =
  video_id :: string
  shipmentId :: string
  videoUrl :: string
  uploadedById :: string

record ShareLink =
  link_id :: string
  token :: string
  proofVideoId :: string
  expiresAt :: int

text \<open>The persisted state: the three tables, each a list of rows.\<close>

record Database =
  shipments :: "Shipment list"
  proofVideos :: "ProofVideo list"
  shareLinks :: "ShareLink list"

text \<open>
  The exceptions the services throw (classes of \<open>@nestjs/common\<close>, each with its
  message), and the error of the Prisma client when a write violates a constraint or
  misses its row (with its error code).
\<close>

datatype HttpException =
    BadRequestException string
  | ConflictException string
  | NotFoundException string
  | UnauthorizedException string
  | InternalServerErrorException string
  | PrismaClientKnownRequestError string

text \<open>\<open>UpdateShipmentDto\<close>: the one optional field \<open>status\<close>.\<close>

datatype UpdateShipmentDto = UpdateShipmentDto (dto_status: "ShipmentStatus option")

section \<open>Shipments: the lifecycle\<close>

text \<open>\<open>ShipmentsService.validTransitions\<close> (shipments.service.ts, lines 15-21).\<close>

fun validTransitions :: "ShipmentStatus \<Rightarrow> ShipmentStatus list" where
  "validTransitions CREATED = [RECORDING, FAILED]"
| "validTransitions RECORDING = [PROCESSING, FAILED]"
| "validTransitions PROCESSING = [SEALED, FAILED]"
| "validTransitions SEALED = []"
| "validTransitions FAILED = []"

text \<open>The enum's values are their own names as strings.\<close>

fun statusName :: "ShipmentStatus \<Rightarrow> string" where
  "statusName CREATED = ''CREATED''"
| "statusName RECORDING = ''RECORDING''"
| "statusName PROCESSING = ''PROCESSING''"
| "statusName SEALED = ''SEALED''"
| "statusName FAILED = ''FAILED''"

text \<open>\<open>Array.prototype.join\<close> on a list of strings.\<close>

fun join :: "string \<Rightarrow> string list \<Rightarrow> string" where
  "join sep [] = []"
| "join sep [x] = x"
| "join sep (x # y # ys) = x @ sep @ join sep (y # ys)"

text \<open>
  The exception built at lines 88-91 of shipments.service.ts: its message names the
  current status, the requested status and the allowed next states.
\<close>

definition invalidTransition ::
  "ShipmentStatus \<Rightarrow> ShipmentStatus \<Rightarrow> ShipmentStatus list \<Rightarrow> HttpException" where
  "invalidTransition currentStatus newStatus allowedTransitions =
     BadRequestException
       (''Invalid state transition: Cannot move from '' @ statusName currentStatus
        @ '' to '' @ statusName newStatus @ ''. ''
        @ ''Allowed transitions: ''
        @ (if length allowedTransitions > 0
           then join '', '' (map statusName allowedTransitions)
           else ''None (terminal state)''))"

text \<open>The exception built at lines 59-61: a sealed shipment is immutable.\<close>

definition sealedImmutable :: HttpException where
  "sealedImmutable =
     BadRequestException ''Cannot modify a sealed shipment. Sealed shipments are immutable.''"

text \<open>\<open>ShipmentsService.validateStateTransition\<close> (lines 76-93).\<close>

definition validateStateTransition ::
  "ShipmentStatus \<Rightarrow> ShipmentStatus \<Rightarrow> HttpException + unit" where
  "validateStateTransition currentStatus newStatus =
     (if currentStatus = newStatus then Inr ()
      else let allowedTransitions = validTransitions currentStatus in
        if newStatus \<notin> set allowedTransitions
        then Inl (invalidTransition currentStatus newStatus allowedTransitions)
        else Inr ())"

text \<open>\<open>ShipmentsRepository.findById\<close>: \<open>findUnique\<close> on the primary key.\<close>

definition ShipmentsRepository_findById :: "Database \<Rightarrow> string \<Rightarrow> Shipment option" where
  "ShipmentsRepository_findById db i = find (\<lambda>s. shipment_id s = i) (shipments db)"

text \<open>
  \<open>ShipmentsRepository.update\<close> (shipments.repository.ts, lines 81-96):
  \<open>prisma.shipment.update\<close> writes the fields present in \<open>data\<close> to the one row that
  \<open>where: { id }\<close> selects (the row \<open>findUnique\<close> returns) and returns that row; it
  throws (code P2025) when there is no such row.
\<close>

fun updateUnique :: "('a \<Rightarrow> bool) \<Rightarrow> ('a \<Rightarrow> 'a) \<Rightarrow> 'a list \<Rightarrow> 'a list" where
  "updateUnique P f [] = []"
| "updateUnique P f (x # xs) = (if P x then f x # xs else x # updateUnique P f xs)"

definition applyUpdate :: "UpdateShipmentDto \<Rightarrow> Shipment \<Rightarrow> Shipment" where
  "applyUpdate data s =
     (case dto_status data of None \<Rightarrow> s | Some st \<Rightarrow> s\<lparr>status := st\<rparr>)"

definition ShipmentsRepository_update ::
  "Database \<Rightarrow> string \<Rightarrow> UpdateShipmentDto \<Rightarrow> (HttpException + Shipment) \<times> Database" where
  "ShipmentsRepository_update db i data =
     (case ShipmentsRepository_findById db i of
        None \<Rightarrow> (Inl (PrismaClientKnownRequestError ''P2025''), db)
      | Some s \<Rightarrow>
          (Inr (applyUpdate data s),
           db\<lparr>shipments :=
                 updateUnique (\<lambda>x. shipment_id x = i) (applyUpdate data) (shipments db)\<rparr>))"

text \<open>\<open>ShipmentsService.findById\<close> (lines 44-52).\<close>

definition ShipmentsService_findById :: "Database \<Rightarrow> string \<Rightarrow> HttpException + Shipment" where
  "ShipmentsService_findById db i =
     (case ShipmentsRepository_findById db i of
        None \<Rightarrow> Inl (NotFoundException (''Shipment with ID '' @ i @ '' not found''))
      | Some shipment \<Rightarrow> Inr shipment)"

text \<open>
  \<open>ShipmentsService.update\<close> (lines 54-70): the result and the database afterwards.
  A thrown exception leaves the database as it was.
\<close>

definition ShipmentsService_update ::
  "Database \<Rightarrow> string \<Rightarrow> UpdateShipmentDto \<Rightarrow> (HttpException + Shipment) \<times> Database" where
  "ShipmentsService_update db i updateShipmentDto =
     (case ShipmentsService_findById db i of
        Inl e \<Rightarrow> (Inl e, db)
      | Inr shipment \<Rightarrow>
          if status shipment = SEALED then (Inl sealedImmutable, db)
          else
            (case (case dto_status updateShipmentDto of
                     None \<Rightarrow> Inr ()
                   | Some newStatus \<Rightarrow> validateStateTransition (status shipment) newStatus) of
               Inl e \<Rightarrow> (Inl e, db)
             | Inr _ \<Rightarrow> ShipmentsRepository_update db i updateShipmentDto))"

text \<open>
  The same call, seen from the repository: the calls of \<open>ShipmentsRepository.update\<close>
  (line 69) that \<open>ShipmentsService.update\<close> makes, each with its id and its data; none
  when an exception is thrown first.
\<close>

definition ShipmentsService_update_writes ::
  "Database \<Rightarrow> string \<Rightarrow> UpdateShipmentDto \<Rightarrow> (string \<times> UpdateShipmentDto) list" where
  "ShipmentsService_update_writes db i updateShipmentDto =
     (case ShipmentsService_findById db i of
        Inl e \<Rightarrow> []
      | Inr shipment \<Rightarrow>
          if status shipment = SEALED then []
          else
            (case (case dto_status updateShipmentDto of
                     None \<Rightarrow> Inr ()
                   | Some newStatus \<Rightarrow> validateStateTransition (status shipment) newStatus) of
               Inl e \<Rightarrow> []
             | Inr _ \<Rightarrow> [(i, updateShipmentDto)]))"

text \<open>
  \<open>CreateShipmentDto\<close>, \<open>ShipmentsRepository.findByAwb\<close> and
  \<open>ShipmentsRepository.create\<close>: the insert takes the column default \<open>CREATED\<close> for
  the status and a generated id; it throws (code P2002) on a duplicate primary key or a
  duplicate pair (awb, organizationId). The tables of users and organizations are not
  part of the model, so their foreign keys are not checked.
\<close>

datatype CreateShipmentDto = CreateShipmentDto (dto_awb: string) (dto_organizationId: string)

definition ShipmentsRepository_findByAwb ::
  "Database \<Rightarrow> string \<Rightarrow> string \<Rightarrow> Shipment option" where
  "ShipmentsRepository_findByAwb db a org =
     find (\<lambda>s. awb s = a \<and> organizationId s = org) (shipments db)"

definition ShipmentsRepository_create ::
  "string \<Rightarrow> Database \<Rightarrow> CreateShipmentDto \<Rightarrow> string
     \<Rightarrow> (HttpException + Shipment) \<times> Database" where
  "ShipmentsRepository_create newId db data createdBy =
     (if ShipmentsRepository_findById db newId \<noteq> None
         \<or> ShipmentsRepository_findByAwb db (dto_awb data) (dto_organizationId data) \<noteq> None
      then (Inl (PrismaClientKnownRequestError ''P2002''), db)
      else
        let row = \<lparr>shipment_id = newId, awb = dto_awb data, status = CREATED,
                   organizationId = dto_organizationId data, createdById = createdBy\<rparr>
        in (Inr row, db\<lparr>shipments := shipments db @ [row]\<rparr>))"

text \<open>\<open>ShipmentsService.create\<close> (lines 25-38).\<close>

definition ShipmentsService_create ::
  "string \<Rightarrow> Database \<Rightarrow> CreateShipmentDto \<Rightarrow> string
     \<Rightarrow> (HttpException + Shipment) \<times> Database" where
  "ShipmentsService_create newId db createShipmentDto createdBy =
     (case ShipmentsRepository_findByAwb db (dto_awb createShipmentDto)
             (dto_organizationId createShipmentDto) of
        Some existing \<Rightarrow>
          (Inl (ConflictException
                  (''Shipment with AWB '' @ dto_awb createShipmentDto
                   @ '' already exists for this organization'')), db)
      | None \<Rightarrow> ShipmentsRepository_create newId db createShipmentDto createdBy)"

section \<open>Blob storage\<close>

text \<open>
  \<open>S3Service\<close> (src/common/services/s3.service.ts). The configuration read in the
  constructor, the uploaded file, and the two things the environment decides: the value
  of \<open>randomUUID()\<close> and whether \<open>s3Client.send\<close> returns or throws (with the
  error's message).
\<close>

record S3Config =
  bucketName :: string
  region :: string

record MulterFile =
  originalname :: string
  mimetype :: string
  buffer :: string

datatype SendOutcome = SendOk | SendThrows string

text \<open>\<open>String.prototype.split\<close> on a one-character separator; never empty.\<close>

fun split :: "char \<Rightarrow> string \<Rightarrow> string list" where
  "split c [] = [[]]"
| "split c (x # xs) =
     (if x = c then [] # split c xs
      else (case split c xs of [] \<Rightarrow> [[x]] | w # ws \<Rightarrow> (x # w) # ws))"

text \<open>
  \<open>S3Service.uploadFile\<close> (lines 36-63): the URL of the stored object, or the
  \<open>InternalServerErrorException\<close> of the \<open>catch\<close> block. \<open>pop()\<close> takes the last piece
  of the split name.
\<close>

definition S3Service_uploadFile ::
  "S3Config \<Rightarrow> string \<Rightarrow> SendOutcome \<Rightarrow> MulterFile \<Rightarrow> string \<Rightarrow> HttpException + string" where
  "S3Service_uploadFile cfg uuid sendOutcome file folder =
     (let fileExtension = last (split CHR ''.'' (originalname file));
          fileName = folder @ ''/'' @ uuid @ ''.'' @ fileExtension
      in case sendOutcome of
           SendThrows message \<Rightarrow>
             Inl (InternalServerErrorException (''Failed to upload file to S3: '' @ message))
         | SendOk \<Rightarrow>
             Inr (''https://'' @ bucketName cfg @ ''.s3.'' @ region cfg
                  @ ''.amazonaws.com/'' @ fileName))"

section \<open>Proof videos: upload and seal\<close>

datatype UploadVideoDto = UploadVideoDto (dto_shipmentId: string)

text \<open>\<open>VideosRepository.findByShipmentId\<close>: \<open>findUnique\<close> on the unique column.\<close>

definition VideosRepository_findByShipmentId :: "Database \<Rightarrow> string \<Rightarrow> ProofVideo option" where
  "VideosRepository_findByShipmentId db sid = find (\<lambda>v. shipmentId v = sid) (proofVideos db)"

text \<open>
  \<open>VideosRepository.create\<close> (videos.repository.ts, lines 9-34): the insert throws on a
  duplicate primary key or a duplicate \<open>shipmentId\<close> (unique index, code P2002) and on a
  \<open>shipmentId\<close> that names no shipment (foreign key, code P2003).
\<close>

definition VideosRepository_create ::
  "string \<Rightarrow> Database \<Rightarrow> string \<Rightarrow> string \<Rightarrow> string
     \<Rightarrow> (HttpException + ProofVideo) \<times> Database" where
  "VideosRepository_create newId db sid url uploadedBy =
     (if find (\<lambda>v. video_id v = newId) (proofVideos db) \<noteq> None
         \<or> VideosRepository_findByShipmentId db sid \<noteq> None
      then (Inl (PrismaClientKnownRequestError ''P2002''), db)
      else if ShipmentsRepository_findById db sid = None
      then (Inl (PrismaClientKnownRequestError ''P2003''), db)
      else
        let row = \<lparr>video_id = newId, shipmentId = sid, videoUrl = url,
                   uploadedById = uploadedBy\<rparr>
        in (Inr row, db\<lparr>proofVideos := proofVideos db @ [row]\<rparr>))"

text \<open>
  What the environment decides during one call of \<open>VideosService.upload\<close>: the S3
  configuration, the UUID of the object name, the outcome of the S3 request, and the id
  generated for the new \<open>proof_videos\<close> row.
\<close>

record UploadEnv =
  s3Config :: S3Config
  randomUUID :: string
  s3Send :: SendOutcome
  newVideoId :: string

text \<open>The exceptions of lines 32, 43, 49 and 55 of videos.service.ts.\<close>

definition videoExists :: "string \<Rightarrow> HttpException" where
  "videoExists sid =
     ConflictException (''Proof video already exists for shipment '' @ sid
        @ ''. Videos are immutable and cannot be replaced.'')"

definition shipmentNotFound :: "string \<Rightarrow> HttpException" where
  "shipmentNotFound sid = NotFoundException (''Shipment '' @ sid @ '' not found'')"

definition uploadToSealed :: HttpException where
  "uploadToSealed =
     BadRequestException
       ''Cannot upload video to a sealed shipment. Sealed shipments are immutable.''"

definition uploadToFailed :: HttpException where
  "uploadToFailed = BadRequestException ''Cannot upload video to a failed shipment.''"

text \<open>
  The checks of \<open>VideosService.upload\<close> before anything is stored (lines 26-58), in
  the source's order: the existing video first, then the shipment, then its status.
\<close>

definition uploadChecks :: "Database \<Rightarrow> UploadVideoDto \<Rightarrow> HttpException + Shipment" where
  "uploadChecks db uploadVideoDto =
     (case VideosRepository_findByShipmentId db (dto_shipmentId uploadVideoDto) of
        Some existing \<Rightarrow> Inl (videoExists (dto_shipmentId uploadVideoDto))
      | None \<Rightarrow>
          (case ShipmentsRepository_findById db (dto_shipmentId uploadVideoDto) of
             None \<Rightarrow> Inl (shipmentNotFound (dto_shipmentId uploadVideoDto))
           | Some shipment \<Rightarrow>
               if status shipment = SEALED then Inl uploadToSealed
               else if status shipment = FAILED then Inl uploadToFailed
               else Inr shipment))"

text \<open>
  \<open>VideosService.upload\<close> (lines 21-75): the checks, the S3 upload (line 61), the
  insert of the video (line 64) and the update of the shipment to \<open>SEALED\<close> (line 70,
  through the repository, not through \<open>ShipmentsService.update\<close>). The two writes are
  two separate calls of the Prisma client.
\<close>

definition VideosService_upload ::
  "UploadEnv \<Rightarrow> Database \<Rightarrow> UploadVideoDto \<Rightarrow> MulterFile \<Rightarrow> string
     \<Rightarrow> (HttpException + ProofVideo) \<times> Database" where
  "VideosService_upload env db uploadVideoDto file uploadedBy =
     (case uploadChecks db uploadVideoDto of
        Inl e \<Rightarrow> (Inl e, db)
      | Inr shipment \<Rightarrow>
          (case S3Service_uploadFile (s3Config env) (randomUUID env) (s3Send env) file
                  ''proof-videos'' of
             Inl e \<Rightarrow> (Inl e, db)
           | Inr url \<Rightarrow>
               (case VideosRepository_create (newVideoId env) db
                       (dto_shipmentId uploadVideoDto) url uploadedBy of
                  (Inl e, db1) \<Rightarrow> (Inl e, db1)
                | (Inr video, db1) \<Rightarrow>
                    (case ShipmentsRepository_update db1 (dto_shipmentId uploadVideoDto)
                            (UpdateShipmentDto (Some SEALED)) of
                       (Inl e, db2) \<Rightarrow> (Inl e, db2)
                     | (Inr sealed, db2) \<Rightarrow> (Inr video, db2)))))"

text \<open>
  The same call, seen from the database: the state after each write that
  \<open>VideosService.upload\<close> makes, in order (empty when it writes nothing).
\<close>

definition VideosService_upload_writes ::
  "UploadEnv \<Rightarrow> Database \<Rightarrow> UploadVideoDto \<Rightarrow> MulterFile \<Rightarrow> string \<Rightarrow> Database list" where
  "VideosService_upload_writes env db uploadVideoDto file uploadedBy =
     (case uploadChecks db uploadVideoDto of
        Inl e \<Rightarrow> []
      | Inr shipment \<Rightarrow>
          (case S3Service_uploadFile (s3Config env) (randomUUID env) (s3Send env) file
                  ''proof-videos'' of
             Inl e \<Rightarrow> []
           | Inr url \<Rightarrow>
               (case VideosRepository_create (newVideoId env) db
                       (dto_shipmentId uploadVideoDto) url uploadedBy of
                  (Inl e, db1) \<Rightarrow> []
                | (Inr video, db1) \<Rightarrow>
                    db1 # (case ShipmentsRepository_update db1 (dto_shipmentId uploadVideoDto)
                                  (UpdateShipmentDto (Some SEALED)) of
                             (Inl e, db2) \<Rightarrow> []
                           | (Inr sealed, db2) \<Rightarrow> [db2]))))"

section \<open>Share links\<close>

text \<open>
  \<open>ShareLinksRepository.findByToken\<close> (share-links.repository.ts, lines 58-73):
  \<open>findUnique\<close> on the unique token, with the proof video and its shipment included.
\<close>

record ShareLinkWithVideo =
  shareLink :: ShareLink
  proofVideo :: "ProofVideo option"
  shipment :: "Shipment option"

definition includeVideo :: "Database \<Rightarrow> ShareLink \<Rightarrow> ShareLinkWithVideo" where
  "includeVideo db l =
     (let v = find (\<lambda>v. video_id v = proofVideoId l) (proofVideos db)
      in \<lparr>shareLink = l, proofVideo = v,
          shipment = (case v of None \<Rightarrow> None
                      | Some v' \<Rightarrow> ShipmentsRepository_findById db (shipmentId v'))\<rparr>)"

definition ShareLinksRepository_findByToken ::
  "Database \<Rightarrow> string \<Rightarrow> ShareLinkWithVideo option" where
  "ShareLinksRepository_findByToken db tok =
     map_option (includeVideo db) (find (\<lambda>l. token l = tok) (shareLinks db))"

text \<open>
  \<open>ShareLinksService.validateToken\<close> (share-links.service.ts, lines 40-52), at the
  time \<open>now\<close> that \<open>new Date()\<close> reads. It only reads the database.
\<close>

definition ShareLinksService_validateToken ::
  "int \<Rightarrow> Database \<Rightarrow> string \<Rightarrow> (HttpException + ShareLinkWithVideo) \<times> Database" where
  "ShareLinksService_validateToken now db tok =
     (case ShareLinksRepository_findByToken db tok of
        None \<Rightarrow> (Inl (NotFoundException ''Invalid share link''), db)
      | Some l \<Rightarrow>
          if now > expiresAt (shareLink l)
          then (Inl (UnauthorizedException ''Share link has expired''), db)
          else (Inr l, db))"

text \<open>
  \<open>ShareLinksRepository.deleteExpired\<close> (lines 81-89): \<open>deleteMany\<close> with
  \<open>expiresAt < now\<close>; the batch payload is the number of rows deleted.
  \<open>ShareLinksService.cleanupExpired\<close> (lines 59-61) returns it as it is.
\<close>

definition ShareLinksRepository_deleteExpired :: "int \<Rightarrow> Database \<Rightarrow> nat \<times> Database" where
  "ShareLinksRepository_deleteExpired now db =
     (length (filter (\<lambda>l. expiresAt l < now) (shareLinks db)),
      db\<lparr>shareLinks := filter (\<lambda>l. \<not> expiresAt l < now) (shareLinks db)\<rparr>)"

definition ShareLinksService_cleanupExpired ::
  "int \<Rightarrow> Database \<Rightarrow> (HttpException + nat) \<times> Database" where
  "ShareLinksService_cleanupExpired now db =
     (case ShareLinksRepository_deleteExpired now db of (count, db') \<Rightarrow> (Inr count, db'))"

section \<open>Sequences of requests\<close>

text \<open>
  The requests that change a shipment: \<open>POST /shipments\<close>, \<open>PATCH /shipments/:id\<close>
  and \<open>POST /videos/upload\<close>, each with what the environment supplies to it. The
  controllers pass them to the services unchanged.
\<close>

datatype Request =
    PostShipment string CreateShipmentDto string
  | PatchShipment string UpdateShipmentDto
  | PostVideoUpload UploadEnv UploadVideoDto MulterFile string

fun handle :: "Database \<Rightarrow> Request \<Rightarrow> Database" where
  "handle db (PostShipment newId dto userId) = snd (ShipmentsService_create newId db dto userId)"
| "handle db (PatchShipment i dto) = snd (ShipmentsService_update db i dto)"
| "handle db (PostVideoUpload env dto file userId) =
     snd (VideosService_upload env db dto file userId)"

text \<open>The database before the first request and after each one.\<close>

fun states :: "Database \<Rightarrow> Request list \<Rightarrow> Database list" where
  "states db [] = [db]"
| "states db (r # rs) = db # states (handle db r) rs"

definition statusOf :: "Database \<Rightarrow> string \<Rightarrow> ShipmentStatus option" where
  "statusOf db i = map_option status (ShipmentsRepository_findById db i)"

text \<open>The statuses a shipment goes through, repetitions of the same status dropped.\<close>

definition statusHistory :: "Database \<Rightarrow> Request list \<Rightarrow> string \<Rightarrow> ShipmentStatus option list" where
  "statusHistory db rs i = remdups_adj (map (\<lambda>d. statusOf d i) (states db rs))"

text \<open>
  The ways the status of a shipment changes from one state to the next: by a transition
  of the table, by a seal from a status before the seal, or by the creation of the
  shipment.
\<close>

fun tableStep :: "ShipmentStatus option \<Rightarrow> ShipmentStatus option \<Rightarrow> bool" where
  "tableStep (Some a) (Some b) = (b \<in> set (validTransitions a))"
| "tableStep _ _ = False"

fun sealStep :: "ShipmentStatus option \<Rightarrow> ShipmentStatus option \<Rightarrow> bool" where
  "sealStep (Some a) (Some b) = (b = SEALED \<and> a \<in> {CREATED, RECORDING, PROCESSING})"
| "sealStep _ _ = False"

fun createStep :: "ShipmentStatus option \<Rightarrow> ShipmentStatus option \<Rightarrow> bool" where
  "createStep None (Some b) = (b = CREATED)"
| "createStep _ _ = False"

text \<open>The only path along the table from a status to \<open>SEALED\<close> (none from \<open>FAILED\<close>).\<close>

fun pathToSealed :: "ShipmentStatus \<Rightarrow> ShipmentStatus list" where
  "pathToSealed CREATED = [CREATED, RECORDING, PROCESSING, SEALED]"
| "pathToSealed RECORDING = [RECORDING, PROCESSING, SEALED]"
| "pathToSealed PROCESSING = [PROCESSING, SEALED]"
| "pathToSealed SEALED = [SEALED]"
| "pathToSealed FAILED = []"

section \<open>Referential integrity\<close>

text \<open>
  The foreign keys of the migration between the modelled tables: every proof video
  names an existing shipment (\<open>proof_videos_shipmentId_fkey\<close>) and every share link an
  existing proof video (\<open>share_links_proofVideoId_fkey\<close>).
\<close>

definition foreignKeysHold :: "Database \<Rightarrow> bool" where
  "foreignKeysHold db \<longleftrightarrow>
     list_all (\<lambda>v. ShipmentsRepository_findById db (shipmentId v) \<noteq> None) (proofVideos db)
     \<and> list_all (\<lambda>l. find (\<lambda>v. video_id v = proofVideoId l) (proofVideos db) \<noteq> None)
          (shareLinks db)"

section \<open>Example data\<close>

definition exampleShipment :: "ShipmentStatus \<Rightarrow> Shipment" where
  "exampleShipment st =
     \<lparr>shipment_id = ''s1'', awb = ''AWB1'', status = st, organizationId = ''org-A'',
      createdById = ''u1''\<rparr>"

definition exampleDb :: "ShipmentStatus \<Rightarrow> Database" where
  "exampleDb st = \<lparr>shipments = [exampleShipment st], proofVideos = [], shareLinks = []\<rparr>"

definition emptyDb :: Database where
  "emptyDb = \<lparr>shipments = [], proofVideos = [], shareLinks = []\<rparr>"

definition exampleFile :: MulterFile where
  "exampleFile = \<lparr>originalname = ''proof.mp4'', mimetype = ''video/mp4'', buffer = ''data''\<rparr>"

definition exampleEnv :: "SendOutcome \<Rightarrow> UploadEnv" where
  "exampleEnv outcome =
     \<lparr>s3Config = \<lparr>bucketName = ''bucket'', region = ''eu-west-1''\<rparr>,
      randomUUID = ''uuid-1'', s3Send = outcome, newVideoId = ''v1''\<rparr>"

definition exampleVideo :: ProofVideo where
  "exampleVideo =
     \<lparr>video_id = ''v1'', shipmentId = ''s1'',
      videoUrl = ''https://bucket.s3.eu-west-1.amazonaws.com/proof-videos/uuid-1.mp4'',
      uploadedById = ''u1''\<rparr>"

definition exampleLink :: "string \<Rightarrow> string \<Rightarrow> int \<Rightarrow> ShareLink" where
  "exampleLink i tok t = \<lparr>link_id = i, token = tok, proofVideoId = ''v1'', expiresAt = t\<rparr>"

definition exampleLinkDb :: Database where
  "exampleLinkDb =
     \<lparr>shipments = [exampleShipment SEALED], proofVideos = [exampleVideo],
      shareLinks = [exampleLink ''l1'' ''aa'' 100, exampleLink ''l2'' ''bb'' 200,
                    exampleLink ''l3'' ''cc'' 50]\<rparr>"

section \<open>The lifecycle: facts about \<open>ShipmentsService.update\<close>\<close>

lemma updateUnique_fixed:
  "find P xs = Some s \<Longrightarrow> f s = s \<Longrightarrow> updateUnique P f xs = xs"
  by (induction xs) (auto split: if_splits)

lemma findById_updateUnique_same:
  assumes "\<And>x. shipment_id (f x) = shipment_id x"
  shows "find (\<lambda>s. shipment_id s = i) (updateUnique (\<lambda>x. shipment_id x = i) f xs)
           = map_option f (find (\<lambda>s. shipment_id s = i) xs)"
  using assms by (induction xs) auto

lemma findById_updateUnique_other:
  assumes "\<And>x. shipment_id (f x) = shipment_id x" and "j \<noteq> i"
  shows "find (\<lambda>s. shipment_id s = j) (updateUnique (\<lambda>x. shipment_id x = i) f xs)
           = find (\<lambda>s. shipment_id s = j) xs"
  using assms by (induction xs) auto

lemma update_sealed:
  "ShipmentsRepository_findById db i = Some s \<Longrightarrow> status s = SEALED \<Longrightarrow>
   ShipmentsService_update db i dto = (Inl sealedImmutable, db)"
  by (simp add: ShipmentsService_update_def ShipmentsService_findById_def)

lemma update_invalid:
  "ShipmentsRepository_findById db i = Some s \<Longrightarrow> status s \<noteq> SEALED \<Longrightarrow>
   b \<noteq> status s \<Longrightarrow> b \<notin> set (validTransitions (status s)) \<Longrightarrow>
   ShipmentsService_update db i (UpdateShipmentDto (Some b))
     = (Inl (invalidTransition (status s) b (validTransitions (status s))), db)"
  by (auto simp add: ShipmentsService_update_def ShipmentsService_findById_def
      validateStateTransition_def Let_def)

lemma update_valid:
  "ShipmentsRepository_findById db i = Some s \<Longrightarrow> status s \<noteq> SEALED \<Longrightarrow>
   b = status s \<or> b \<in> set (validTransitions (status s)) \<Longrightarrow>
   ShipmentsService_update db i (UpdateShipmentDto (Some b))
     = (Inr (s\<lparr>status := b\<rparr>),
        db\<lparr>shipments := updateUnique (\<lambda>x. shipment_id x = i) (\<lambda>x. x\<lparr>status := b\<rparr>)
                            (shipments db)\<rparr>)"
  by (auto simp add: ShipmentsService_update_def ShipmentsService_findById_def
      validateStateTransition_def Let_def ShipmentsRepository_update_def
      applyUpdate_def[abs_def])

lemma update_none:
  "ShipmentsRepository_findById db i = Some s \<Longrightarrow> status s \<noteq> SEALED \<Longrightarrow>
   ShipmentsService_update db i (UpdateShipmentDto None) = (Inr s, db)"
  by (auto simp add: ShipmentsService_update_def ShipmentsService_findById_def
      ShipmentsRepository_update_def applyUpdate_def[abs_def] ShipmentsRepository_findById_def
      updateUnique_fixed)

lemma update_missing:
  "ShipmentsRepository_findById db i = None \<Longrightarrow> snd (ShipmentsService_update db i dto) = db"
  by (simp add: ShipmentsService_update_def ShipmentsService_findById_def)

lemma update_same:
  assumes "ShipmentsRepository_findById db i = Some s" and "status s \<noteq> SEALED"
  shows "ShipmentsService_update db i (UpdateShipmentDto (Some (status s))) = (Inr s, db)"
proof -
  have "updateUnique (\<lambda>x. shipment_id x = i) (\<lambda>x. x\<lparr>status := status s\<rparr>) (shipments db)
          = shipments db"
    using assms(1) by (intro updateUnique_fixed[where s = s]) (simp_all add: ShipmentsRepository_findById_def)
  then show ?thesis using update_valid[OF assms, of "status s"] by simp
qed

text \<open>What one update can do to the database.\<close>

lemma update_cases:
  "snd (ShipmentsService_update db j dto) = db
   \<or> (\<exists>s b. ShipmentsRepository_findById db j = Some s \<and> status s \<noteq> SEALED
         \<and> dto_status dto = Some b \<and> b \<in> set (validTransitions (status s))
         \<and> snd (ShipmentsService_update db j dto)
             = db\<lparr>shipments := updateUnique (\<lambda>x. shipment_id x = j) (\<lambda>x. x\<lparr>status := b\<rparr>)
                                 (shipments db)\<rparr>)"
proof (cases "ShipmentsRepository_findById db j")
  case None
  then show ?thesis by (simp add: update_missing)
next
  case (Some s)
  show ?thesis
  proof (cases "status s = SEALED")
    case True
    with Some show ?thesis by (simp add: update_sealed)
  next
    case False
    obtain st where dto: "dto = UpdateShipmentDto st" by (cases dto)
    show ?thesis
    proof (cases st)
      case None
      with Some False dto show ?thesis by (simp add: update_none)
    next
      case (Some b)
      note b = this
      consider "b = status s" | "b \<noteq> status s" "b \<in> set (validTransitions (status s))"
        | "b \<noteq> status s" "b \<notin> set (validTransitions (status s))" by blast
      then show ?thesis
      proof cases
        case 1
        with \<open>ShipmentsRepository_findById db j = Some s\<close> False dto b show ?thesis
          by (simp add: update_same)
      next
        case 2
        with \<open>ShipmentsRepository_findById db j = Some s\<close> False dto b show ?thesis
          by (simp add: update_valid)
      next
        case 3
        with \<open>ShipmentsRepository_findById db j = Some s\<close> False dto b show ?thesis
          by (simp add: update_invalid)
      qed
    qed
  qed
qed

lemma update_row:
  assumes "ShipmentsRepository_findById db i = Some s"
  shows "ShipmentsRepository_findById (snd (ShipmentsService_update db j dto)) i = Some s
       \<or> (\<exists>b. j = i \<and> status s \<noteq> SEALED \<and> dto_status dto = Some b \<and> b \<in> set (validTransitions (status s))
            \<and> ShipmentsRepository_findById (snd (ShipmentsService_update db j dto)) i
                = Some (s\<lparr>status := b\<rparr>))"
  using update_cases[of db j dto]
proof
  assume "snd (ShipmentsService_update db j dto) = db"
  with assms show ?thesis by simp
next
  assume "\<exists>s b. ShipmentsRepository_findById db j = Some s \<and> status s \<noteq> SEALED
         \<and> dto_status dto = Some b \<and> b \<in> set (validTransitions (status s))
         \<and> snd (ShipmentsService_update db j dto)
             = db\<lparr>shipments := updateUnique (\<lambda>x. shipment_id x = j) (\<lambda>x. x\<lparr>status := b\<rparr>)
                                 (shipments db)\<rparr>"
  then obtain s' b where s': "ShipmentsRepository_findById db j = Some s'" "status s' \<noteq> SEALED"
      "dto_status dto = Some b" "b \<in> set (validTransitions (status s'))"
      and db': "snd (ShipmentsService_update db j dto)
             = db\<lparr>shipments := updateUnique (\<lambda>x. shipment_id x = j) (\<lambda>x. x\<lparr>status := b\<rparr>)
                                 (shipments db)\<rparr>" by blast
  show ?thesis
  proof (cases "j = i")
    case True
    with s' assms have "s' = s" by simp
    moreover have "ShipmentsRepository_findById (snd (ShipmentsService_update db j dto)) i
                = Some (s\<lparr>status := b\<rparr>)"
      unfolding db' using assms True
      by (simp add: ShipmentsRepository_findById_def findById_updateUnique_same)
    ultimately show ?thesis using True s' by blast
  next
    case False
    then have "ShipmentsRepository_findById (snd (ShipmentsService_update db j dto)) i = Some s"
      unfolding db' using assms
      by (simp add: ShipmentsRepository_findById_def findById_updateUnique_other)
    then show ?thesis by simp
  qed
qed

lemma states_nonempty: "states db rs \<noteq> []"
  by (cases rs) simp_all

lemma last_states: "last (states db rs) = foldl handle db rs"
  by (induction rs arbitrary: db) (simp_all add: states_nonempty)

lemma terminal_row_kept:
  assumes "ShipmentsRepository_findById db i = Some s" and "status s = SEALED \<or> status s = FAILED"
  shows "ShipmentsRepository_findById (snd (ShipmentsService_update db j dto)) i = Some s"
  using update_row[OF assms(1), of j dto] assms(2) by auto

lemma terminal_update_unchanged:
  assumes "ShipmentsRepository_findById db i = Some s" and "status s = SEALED \<or> status s = FAILED"
  shows "snd (ShipmentsService_update db i dto) = db"
  using update_cases[of db i dto] assms by auto

lemma exampleDb_find:
  "ShipmentsRepository_findById (exampleDb st) ''s1'' = Some (exampleShipment st)"
  by (simp add: exampleDb_def exampleShipment_def ShipmentsRepository_findById_def)

lemma exampleShipment_status: "status (exampleShipment st) = st"
  by (simp add: exampleShipment_def)

text \<open>The repository calls of an update give the database it returns.\<close>

lemma update_writes_last:
  "snd (ShipmentsService_update db i dto)
     = foldl (\<lambda>d (j, data). snd (ShipmentsRepository_update d j data)) db
         (ShipmentsService_update_writes db i dto)"
  by (simp add: ShipmentsService_update_def ShipmentsService_update_writes_def
      split: sum.splits option.splits)

lemma update_writes_sealed:
  "ShipmentsRepository_findById db i = Some s \<Longrightarrow> status s = SEALED \<Longrightarrow>
   ShipmentsService_update_writes db i dto = []"
  by (simp add: ShipmentsService_update_writes_def ShipmentsService_findById_def)

lemma update_writes_invalid:
  "ShipmentsRepository_findById db i = Some s \<Longrightarrow>
   b \<noteq> status s \<Longrightarrow> b \<notin> set (validTransitions (status s)) \<Longrightarrow>
   ShipmentsService_update_writes db i (UpdateShipmentDto (Some b)) = []"
  by (auto simp add: ShipmentsService_update_writes_def ShipmentsService_findById_def
      validateStateTransition_def Let_def)

lemma update_writes_same:
  "ShipmentsRepository_findById db i = Some s \<Longrightarrow> status s \<noteq> SEALED \<Longrightarrow>
   ShipmentsService_update_writes db i (UpdateShipmentDto (Some (status s)))
     = [(i, UpdateShipmentDto (Some (status s)))]"
  by (simp add: ShipmentsService_update_writes_def ShipmentsService_findById_def
      validateStateTransition_def)

lemma update_writes_none:
  "ShipmentsRepository_findById db i = Some s \<Longrightarrow> status s \<noteq> SEALED \<Longrightarrow>
   ShipmentsService_update_writes db i (UpdateShipmentDto None) = [(i, UpdateShipmentDto None)]"
  by (simp add: ShipmentsService_update_writes_def ShipmentsService_findById_def)

section \<open>Facts about \<open>VideosService.upload\<close>\<close>

lemma uploadChecks_Inr:
  "uploadChecks db dto = Inr s \<longleftrightarrow>
     VideosRepository_findByShipmentId db (dto_shipmentId dto) = None
     \<and> ShipmentsRepository_findById db (dto_shipmentId dto) = Some s
     \<and> status s \<noteq> SEALED \<and> status s \<noteq> FAILED"
  by (auto simp: uploadChecks_def split: option.splits)

lemma upload_checks_fail:
  "uploadChecks db dto = Inl e \<Longrightarrow> VideosService_upload env db dto fl uid = (Inl e, db)"
  by (simp add: VideosService_upload_def)

lemma upload_s3_fail:
  "uploadChecks db dto = Inr s \<Longrightarrow> s3Send env = SendThrows m \<Longrightarrow>
   VideosService_upload env db dto fl uid
     = (Inl (InternalServerErrorException (''Failed to upload file to S3: '' @ m)), db)"
  by (simp add: VideosService_upload_def S3Service_uploadFile_def)

lemma uploadFile_ok:
  "\<exists>url. S3Service_uploadFile cfg uuid SendOk fl folder = Inr url"
  by (simp add: S3Service_uploadFile_def)

lemma upload_id_clash:
  "uploadChecks db dto = Inr s \<Longrightarrow> s3Send env = SendOk \<Longrightarrow>
   find (\<lambda>v. video_id v = newVideoId env) (proofVideos db) \<noteq> None \<Longrightarrow>
   VideosService_upload env db dto fl uid = (Inl (PrismaClientKnownRequestError ''P2002''), db)"
  by (auto simp add: VideosService_upload_def S3Service_uploadFile_def VideosRepository_create_def)

lemma findById_proofVideos_update [simp]:
  "ShipmentsRepository_findById (db\<lparr>proofVideos := vs\<rparr>) i = ShipmentsRepository_findById db i"
  by (simp add: ShipmentsRepository_findById_def)

lemma upload_success:
  assumes "uploadChecks db dto = Inr s" and "s3Send env = SendOk"
    and "find (\<lambda>v. video_id v = newVideoId env) (proofVideos db) = None"
    and "S3Service_uploadFile (s3Config env) (randomUUID env) SendOk fl ''proof-videos'' = Inr url"
  shows "VideosService_upload env db dto fl uid
     = (Inr \<lparr>video_id = newVideoId env, shipmentId = dto_shipmentId dto, videoUrl = url,
              uploadedById = uid\<rparr>,
        db\<lparr>proofVideos := proofVideos db
              @ [\<lparr>video_id = newVideoId env, shipmentId = dto_shipmentId dto, videoUrl = url,
                  uploadedById = uid\<rparr>],
           shipments := updateUnique (\<lambda>x. shipment_id x = dto_shipmentId dto)
                          (\<lambda>x. x\<lparr>status := SEALED\<rparr>) (shipments db)\<rparr>)"
proof -
  from assms(1) have "VideosRepository_findByShipmentId db (dto_shipmentId dto) = None"
    and "ShipmentsRepository_findById db (dto_shipmentId dto) = Some s"
    by (simp_all add: uploadChecks_Inr)
  with assms show ?thesis
    by (simp add: VideosService_upload_def VideosRepository_create_def
        ShipmentsRepository_update_def Let_def applyUpdate_def[abs_def])
qed

lemma upload_writes_success:
  assumes "uploadChecks db dto = Inr s" and "s3Send env = SendOk"
    and "find (\<lambda>v. video_id v = newVideoId env) (proofVideos db) = None"
    and "S3Service_uploadFile (s3Config env) (randomUUID env) SendOk fl ''proof-videos'' = Inr url"
  shows "VideosService_upload_writes env db dto fl uid
     = [db\<lparr>proofVideos := proofVideos db
              @ [\<lparr>video_id = newVideoId env, shipmentId = dto_shipmentId dto, videoUrl = url,
                  uploadedById = uid\<rparr>]\<rparr>,
        db\<lparr>proofVideos := proofVideos db
              @ [\<lparr>video_id = newVideoId env, shipmentId = dto_shipmentId dto, videoUrl = url,
                  uploadedById = uid\<rparr>],
           shipments := updateUnique (\<lambda>x. shipment_id x = dto_shipmentId dto)
                          (\<lambda>x. x\<lparr>status := SEALED\<rparr>) (shipments db)\<rparr>]"
proof -
  from assms(1) have "VideosRepository_findByShipmentId db (dto_shipmentId dto) = None"
    and "ShipmentsRepository_findById db (dto_shipmentId dto) = Some s"
    by (simp_all add: uploadChecks_Inr)
  with assms show ?thesis
    by (simp add: VideosService_upload_writes_def VideosRepository_create_def
        ShipmentsRepository_update_def Let_def applyUpdate_def[abs_def])
qed

text \<open>Every outcome of an upload.\<close>

lemma upload_cases:
  obtains (checks) e where "uploadChecks db dto = Inl e"
      "VideosService_upload env db dto fl uid = (Inl e, db)"
  | (s3) s m where "uploadChecks db dto = Inr s" "s3Send env = SendThrows m"
      "VideosService_upload env db dto fl uid
         = (Inl (InternalServerErrorException (''Failed to upload file to S3: '' @ m)), db)"
  | (clash) s where "uploadChecks db dto = Inr s" "s3Send env = SendOk"
      "find (\<lambda>v. video_id v = newVideoId env) (proofVideos db) \<noteq> None"
      "VideosService_upload env db dto fl uid
         = (Inl (PrismaClientKnownRequestError ''P2002''), db)"
  | (stored) s url where "uploadChecks db dto = Inr s" "s3Send env = SendOk"
      "find (\<lambda>v. video_id v = newVideoId env) (proofVideos db) = None"
      "S3Service_uploadFile (s3Config env) (randomUUID env) SendOk fl ''proof-videos'' = Inr url"
      "VideosService_upload env db dto fl uid
     = (Inr \<lparr>video_id = newVideoId env, shipmentId = dto_shipmentId dto, videoUrl = url,
              uploadedById = uid\<rparr>,
        db\<lparr>proofVideos := proofVideos db
              @ [\<lparr>video_id = newVideoId env, shipmentId = dto_shipmentId dto, videoUrl = url,
                  uploadedById = uid\<rparr>],
           shipments := updateUnique (\<lambda>x. shipment_id x = dto_shipmentId dto)
                          (\<lambda>x. x\<lparr>status := SEALED\<rparr>) (shipments db)\<rparr>)"
proof (cases "uploadChecks db dto")
  case (Inl e)
  then show ?thesis using checks upload_checks_fail by blast
next
  case (Inr s)
  show ?thesis
  proof (cases "s3Send env")
    case SendOk
    obtain url where url: "S3Service_uploadFile (s3Config env) (randomUUID env) SendOk fl ''proof-videos'' = Inr url"
      using uploadFile_ok by blast
    show ?thesis
    proof (cases "find (\<lambda>v. video_id v = newVideoId env) (proofVideos db)")
      case None
      from stored[OF Inr SendOk None url upload_success[OF Inr SendOk None url]] show ?thesis .
    next
      case (Some v)
      then have "find (\<lambda>v. video_id v = newVideoId env) (proofVideos db) \<noteq> None" by simp
      from clash[OF Inr SendOk this upload_id_clash[OF Inr SendOk this]] show ?thesis .
    qed
  next
    case (SendThrows m)
    from s3[OF Inr SendThrows upload_s3_fail[OF Inr SendThrows]] show ?thesis .
  qed
qed

text \<open>The writes of a call end in the database the call returns.\<close>

lemma upload_writes_last:
  "snd (VideosService_upload env db dto fl uid)
     = last (db # VideosService_upload_writes env db dto fl uid)"
proof (cases rule: upload_cases[where db=db and dto=dto and env=env and fl=fl and uid=uid])
  case (checks e)
  then show ?thesis by (simp add: VideosService_upload_writes_def)
next
  case (s3 s m)
  then show ?thesis by (simp add: VideosService_upload_writes_def S3Service_uploadFile_def)
next
  case (clash s)
  then show ?thesis
    by (auto simp add: VideosService_upload_writes_def S3Service_uploadFile_def
        VideosRepository_create_def)
next
  case (stored s url)
  from stored(5) upload_writes_success[OF stored(1-4), of uid] show ?thesis by simp
qed

lemma foreignKeys_no_shipment_no_video:
  assumes "foreignKeysHold db" and "ShipmentsRepository_findById db sid = None"
  shows "VideosRepository_findByShipmentId db sid = None"
proof (rule ccontr)
  assume "VideosRepository_findByShipmentId db sid \<noteq> None"
  then obtain v where "v \<in> set (proofVideos db)" and "shipmentId v = sid"
    by (auto simp: VideosRepository_findByShipmentId_def find_None_iff)
  with assms(1) have "ShipmentsRepository_findById db sid \<noteq> None"
    by (auto simp: foreignKeysHold_def list_all_iff)
  with assms(2) show False by simp
qed

lemma upload_video_exists:
  "VideosRepository_findByShipmentId db (dto_shipmentId dto) \<noteq> None \<Longrightarrow>
   VideosService_upload env db dto fl uid = (Inl (videoExists (dto_shipmentId dto)), db)"
  by (auto simp: VideosService_upload_def uploadChecks_def)

lemma upload_no_shipment:
  "VideosRepository_findByShipmentId db (dto_shipmentId dto) = None \<Longrightarrow>
   ShipmentsRepository_findById db (dto_shipmentId dto) = None \<Longrightarrow>
   VideosService_upload env db dto fl uid = (Inl (shipmentNotFound (dto_shipmentId dto)), db)"
  by (auto simp: VideosService_upload_def uploadChecks_def)

lemma uploadChecks_passes_iff:
  "(\<exists>s. uploadChecks db dto = Inr s) \<longleftrightarrow>
     VideosRepository_findByShipmentId db (dto_shipmentId dto) = None
     \<and> statusOf db (dto_shipmentId dto) \<in> {Some CREATED, Some RECORDING, Some PROCESSING}"
proof -
  have "\<And>a. (a \<noteq> SEALED \<and> a \<noteq> FAILED) = (a = CREATED \<or> a = RECORDING \<or> a = PROCESSING)"
    subgoal for a by (cases a) simp_all
    done
  then show ?thesis
    by (auto simp: uploadChecks_Inr statusOf_def)
qed

lemma upload_invalid_state_iff:
  "fst (VideosService_upload env db dto fl uid) \<in> {Inl uploadToSealed, Inl uploadToFailed}
     \<longleftrightarrow> VideosRepository_findByShipmentId db (dto_shipmentId dto) = None
          \<and> statusOf db (dto_shipmentId dto) \<in> {Some SEALED, Some FAILED}"
proof (cases rule: upload_cases[where db=db and dto=dto and env=env and fl=fl and uid=uid])
  case (checks e)
  then show ?thesis
    by (auto simp: uploadChecks_def statusOf_def videoExists_def shipmentNotFound_def
        uploadToSealed_def uploadToFailed_def split: option.splits if_splits)
next
  case (s3 s m)
  then show ?thesis by (auto simp: uploadChecks_Inr statusOf_def uploadToSealed_def uploadToFailed_def)
next
  case (clash s)
  then show ?thesis by (auto simp: uploadChecks_Inr statusOf_def uploadToSealed_def uploadToFailed_def)
next
  case (stored s url)
  then show ?thesis by (auto simp: uploadChecks_Inr statusOf_def)
qed

lemma upload_sealed_or_failed:
  assumes "VideosRepository_findByShipmentId db (dto_shipmentId dto) = None"
    and "ShipmentsRepository_findById db (dto_shipmentId dto) = Some s"
  shows "status s = SEALED \<Longrightarrow> VideosService_upload env db dto fl uid = (Inl uploadToSealed, db)"
    and "status s = FAILED \<Longrightarrow> VideosService_upload env db dto fl uid = (Inl uploadToFailed, db)"
  using assms by (auto simp: VideosService_upload_def uploadChecks_def)

section \<open>Facts about share links\<close>

lemma validateToken_reads_only:
  "snd (ShareLinksService_validateToken now db tok) = db"
  by (simp add: ShareLinksService_validateToken_def split: option.splits)

lemma validateToken_unknown:
  "find (\<lambda>l. token l = tok) (shareLinks db) = None \<Longrightarrow>
   fst (ShareLinksService_validateToken now db tok) = Inl (NotFoundException ''Invalid share link'')"
  by (simp add: ShareLinksService_validateToken_def ShareLinksRepository_findByToken_def)

lemma validateToken_found:
  "find (\<lambda>l. token l = tok) (shareLinks db) = Some l \<Longrightarrow>
   fst (ShareLinksService_validateToken now db tok)
     = (if now > expiresAt l then Inl (UnauthorizedException ''Share link has expired'')
        else Inr (includeVideo db l))"
  by (simp add: ShareLinksService_validateToken_def ShareLinksRepository_findByToken_def
      includeVideo_def Let_def)

lemma includeVideo_bound:
  "shareLink (includeVideo db l) = l
   \<and> proofVideo (includeVideo db l) = find (\<lambda>v. video_id v = proofVideoId l) (proofVideos db)"
  by (simp add: includeVideo_def Let_def)

lemma includeVideo_foreignKeys:
  assumes "foreignKeysHold db" and "l \<in> set (shareLinks db)"
  shows "\<exists>v. proofVideo (includeVideo db l) = Some v \<and> v \<in> set (proofVideos db)
           \<and> video_id v = proofVideoId l
           \<and> shipment (includeVideo db l) = ShipmentsRepository_findById db (shipmentId v)
           \<and> shipment (includeVideo db l) \<noteq> None"
proof -
  from assms obtain v where v: "find (\<lambda>v. video_id v = proofVideoId l) (proofVideos db) = Some v"
    by (auto simp: foreignKeysHold_def list_all_iff)
  then have "v \<in> set (proofVideos db)" and "video_id v = proofVideoId l"
    by (auto simp: find_Some_iff)
  moreover from this assms(1) have "ShipmentsRepository_findById db (shipmentId v) \<noteq> None"
    by (auto simp: foreignKeysHold_def list_all_iff)
  ultimately show ?thesis using v by (simp add: includeVideo_def Let_def)
qed

section \<open>Facts about sequences of requests\<close>

lemma hd_states [simp]: "hd (states db rs) = db"
  by (cases rs) simp_all

lemma successively_states:
  assumes "\<And>d r. r \<in> set rs \<Longrightarrow> P (f d) (f (handle d r))"
  shows "successively P (map f (states db rs))"
  using assms
proof (induction rs arbitrary: db)
  case Nil
  then show ?case by simp
next
  case (Cons r rs)
  have "successively P (map f (states (handle db r) rs))"
    by (rule Cons.IH) (simp add: Cons.prems)
  moreover have "P (f db) (f (handle db r))" by (simp add: Cons.prems)
  ultimately show ?case
    by (simp add: successively_Cons states_nonempty hd_map)
qed

lemma successively_conj:
  "successively P xs \<Longrightarrow> successively Q xs \<Longrightarrow> successively (\<lambda>x y. P x y \<and> Q x y) xs"
  by (induction P xs rule: successively.induct) auto

text \<open>Steps that may repeat a status, with the repetitions dropped.\<close>

lemma successively_history:
  assumes "\<And>d r. r \<in> set rs \<Longrightarrow> statusOf (handle d r) i = statusOf d i
                      \<or> P (statusOf d i) (statusOf (handle d r) i)"
  shows "successively P (statusHistory db rs i)"
proof -
  let ?xs = "map (\<lambda>d. statusOf d i) (states db rs)"
  have "successively (\<lambda>x y. y = x \<or> P x y) ?xs"
    by (rule successively_states) (use assms in blast)
  then have "successively (\<lambda>x y. y = x \<or> P x y) (remdups_adj ?xs)"
    by (rule successively_remdups_adjI)
  moreover have "successively (\<lambda>x y. x \<noteq> y) (remdups_adj ?xs)"
    using distinct_adj_remdups_adj[of ?xs] by (simp add: distinct_adj_def)
  ultimately have "successively (\<lambda>x y. (y = x \<or> P x y) \<and> x \<noteq> y) (remdups_adj ?xs)"
    by (rule successively_conj)
  then show ?thesis
    unfolding statusHistory_def by (rule successively_mono) auto
qed

lemma update_status_step:
  "statusOf (snd (ShipmentsService_update db j dto)) i = statusOf db i
   \<or> tableStep (statusOf db i) (statusOf (snd (ShipmentsService_update db j dto)) i)"
  using update_cases[of db j dto]
proof
  assume "snd (ShipmentsService_update db j dto) = db"
  then show ?thesis by simp
next
  assume "\<exists>s b. ShipmentsRepository_findById db j = Some s \<and> status s \<noteq> SEALED
         \<and> dto_status dto = Some b \<and> b \<in> set (validTransitions (status s))
         \<and> snd (ShipmentsService_update db j dto)
             = db\<lparr>shipments := updateUnique (\<lambda>x. shipment_id x = j) (\<lambda>x. x\<lparr>status := b\<rparr>)
                                 (shipments db)\<rparr>"
  then obtain s b where s: "ShipmentsRepository_findById db j = Some s"
      and b: "b \<in> set (validTransitions (status s))"
      and db': "snd (ShipmentsService_update db j dto)
             = db\<lparr>shipments := updateUnique (\<lambda>x. shipment_id x = j) (\<lambda>x. x\<lparr>status := b\<rparr>)
                                 (shipments db)\<rparr>" by blast
  show ?thesis
  proof (cases "i = j")
    case True
    with s b show ?thesis unfolding db' statusOf_def ShipmentsRepository_findById_def
      by (simp add: findById_updateUnique_same)
  next
    case False
    then show ?thesis unfolding db' statusOf_def ShipmentsRepository_findById_def
      by (simp add: findById_updateUnique_other)
  qed
qed

lemma upload_status_step:
  "statusOf (snd (VideosService_upload env db dto fl uid)) i = statusOf db i
   \<or> sealStep (statusOf db i) (statusOf (snd (VideosService_upload env db dto fl uid)) i)"
proof (cases rule: upload_cases[where db=db and dto=dto and env=env and fl=fl and uid=uid])
  case (checks e)
  then show ?thesis by simp
next
  case (s3 s m)
  then show ?thesis by simp
next
  case (clash s)
  then show ?thesis by simp
next
  case (stored s url)
  from stored(1) have found: "ShipmentsRepository_findById db (dto_shipmentId dto) = Some s"
    and st: "status s \<noteq> SEALED" "status s \<noteq> FAILED"
    by (simp_all add: uploadChecks_Inr)
  show ?thesis
  proof (cases "i = dto_shipmentId dto")
    case True
    have "status s = CREATED \<or> status s = RECORDING \<or> status s = PROCESSING"
      using st by (cases "status s") simp_all
    with True found show ?thesis
      unfolding stored(5) statusOf_def ShipmentsRepository_findById_def
      by (auto simp add: findById_updateUnique_same)
  next
    case False
    then show ?thesis
      unfolding stored(5) statusOf_def ShipmentsRepository_findById_def
      by (simp add: findById_updateUnique_other)
  qed
qed

lemma find_snoc:
  "find P (xs @ [x]) = (case find P xs of Some y \<Rightarrow> Some y | None \<Rightarrow> if P x then Some x else None)"
  by (induction xs) auto

lemma create_status_step:
  "statusOf (snd (ShipmentsService_create newId db dto uid)) i = statusOf db i
   \<or> createStep (statusOf db i) (statusOf (snd (ShipmentsService_create newId db dto uid)) i)"
  by (auto simp add: ShipmentsService_create_def ShipmentsRepository_create_def statusOf_def
      ShipmentsRepository_findById_def Let_def find_snoc split: option.splits)

lemma handle_status_step:
  "statusOf (handle db r) i = statusOf db i
   \<or> tableStep (statusOf db i) (statusOf (handle db r) i)
   \<or> sealStep (statusOf db i) (statusOf (handle db r) i)
   \<or> createStep (statusOf db i) (statusOf (handle db r) i)"
proof (cases r)
  case (PostShipment newId dto uid)
  then show ?thesis using create_status_step[of newId db dto uid i] by auto
next
  case (PatchShipment j dto)
  then show ?thesis using update_status_step[of db j dto i] by auto
next
  case (PostVideoUpload env dto fl uid)
  then show ?thesis using upload_status_step[of env db dto fl uid i] by auto
qed

text \<open>A path along the table that ends sealed is the full, linear one.\<close>

lemma table_path_sealed:
  assumes "successively tableStep (Some a # xs)" and "last (Some a # xs) = Some SEALED"
  shows "Some a # xs = map Some (pathToSealed a)"
  using assms
proof (induction xs arbitrary: a)
  case Nil
  then show ?case by simp
next
  case (Cons x xs)
  from Cons.prems(1) obtain b where x: "x = Some b" and b: "b \<in> set (validTransitions a)"
    and rest: "successively tableStep (Some b # xs)"
    by (cases x) auto
  from Cons.prems(2) x have "last (Some b # xs) = Some SEALED" by simp
  from Cons.IH[OF rest this] have IH: "Some b # xs = map Some (pathToSealed b)" .
  have "b \<noteq> FAILED" using IH by auto
  with b IH x show ?case by (cases a) auto
qed

lemma patch_requests_status_step:
  assumes "r \<in> set (map (\<lambda>(j, dto). PatchShipment j dto) patches)"
  shows "statusOf (handle d r) i = statusOf d i \<or> tableStep (statusOf d i) (statusOf (handle d r) i)"
proof -
  from assms obtain j dto where "r = PatchShipment j dto" by auto
  then show ?thesis using update_status_step[of d j dto i] by simp
qed

text \<open>No request changes the row of a shipment that is sealed or failed.\<close>

lemma terminal_row_kept_create:
  assumes "ShipmentsRepository_findById db i = Some s"
  shows "ShipmentsRepository_findById (snd (ShipmentsService_create newId db dto uid)) i = Some s"
  using assms
  by (auto simp add: ShipmentsService_create_def ShipmentsRepository_create_def Let_def
      ShipmentsRepository_findById_def find_snoc split: option.splits)

lemma terminal_row_kept_upload:
  assumes "ShipmentsRepository_findById db i = Some s" and "status s = SEALED \<or> status s = FAILED"
  shows "ShipmentsRepository_findById (snd (VideosService_upload env db dto fl uid)) i = Some s"
proof (cases rule: upload_cases[where db=db and dto=dto and env=env and fl=fl and uid=uid])
  case (checks e)
  with assms show ?thesis by simp
next
  case (s3 s m)
  with assms show ?thesis by simp
next
  case (clash s)
  with assms show ?thesis by simp
next
  case (stored s' url)
  from stored(1) assms have "i \<noteq> dto_shipmentId dto"
    by (auto simp add: uploadChecks_Inr)
  with assms(1) show ?thesis
    unfolding stored(5) by (simp add: ShipmentsRepository_findById_def findById_updateUnique_other)
qed

lemma terminal_row_kept_handle:
  assumes "ShipmentsRepository_findById db i = Some s" and "status s = SEALED \<or> status s = FAILED"
  shows "ShipmentsRepository_findById (handle db r) i = Some s"
  using assms
  by (cases r) (simp_all add: terminal_row_kept_create terminal_row_kept terminal_row_kept_upload)

lemma terminal_row_kept_states:
  assumes "ShipmentsRepository_findById db i = Some s" and "status s = SEALED \<or> status s = FAILED"
  shows "ShipmentsRepository_findById (last (states db rs)) i = Some s"
  using assms
proof (induction rs arbitrary: db)
  case Nil
  then show ?case by simp
next
  case (Cons r rs)
  have "ShipmentsRepository_findById (handle db r) i = Some s"
    using Cons.prems by (rule terminal_row_kept_handle)
  from Cons.IH[OF this Cons.prems(2)] show ?case
    by (simp add: states_nonempty)
qed

section \<open>Referential integrity is kept\<close>

lemma find_updateUnique_None:
  assumes "\<And>x. shipment_id (f x) = shipment_id x"
  shows "find (\<lambda>s. shipment_id s = j) (updateUnique (\<lambda>x. shipment_id x = i) f xs) = None
           \<longleftrightarrow> find (\<lambda>s. shipment_id s = j) xs = None"
  using assms by (induction xs) auto

lemma foreignKeysHold_shipments_update:
  assumes "foreignKeysHold db" and "\<And>x. shipment_id (f x) = shipment_id x"
  shows "foreignKeysHold (db\<lparr>shipments := updateUnique (\<lambda>x. shipment_id x = i) f (shipments db)\<rparr>)"
  using assms(1)
  by (simp add: foreignKeysHold_def ShipmentsRepository_findById_def
      find_updateUnique_None[OF assms(2)] del: not_None_eq)

lemma foreignKeysHold_update:
  assumes "foreignKeysHold db"
  shows "foreignKeysHold (snd (ShipmentsService_update db j dto))"
  using update_cases[of db j dto] assms
  by (auto simp: foreignKeysHold_shipments_update)

lemma foreignKeysHold_create:
  assumes "foreignKeysHold db"
  shows "foreignKeysHold (snd (ShipmentsService_create newId db dto uid))"
  using assms
  by (auto simp add: ShipmentsService_create_def ShipmentsRepository_create_def Let_def
      foreignKeysHold_def ShipmentsRepository_findById_def find_snoc list_all_iff
      split: option.splits)

lemma foreignKeysHold_upload:
  assumes "foreignKeysHold db"
  shows "foreignKeysHold (snd (VideosService_upload env db dto fl uid))"
proof (cases rule: upload_cases[where db=db and dto=dto and env=env and fl=fl and uid=uid])
  case (checks e)
  with assms show ?thesis by simp
next
  case (s3 s m)
  with assms show ?thesis by simp
next
  case (clash s)
  with assms show ?thesis by simp
next
  case (stored s url)
  from stored(1) have found: "ShipmentsRepository_findById db (dto_shipmentId dto) = Some s"
    by (simp add: uploadChecks_Inr)
  have "foreignKeysHold (db\<lparr>proofVideos := proofVideos db
              @ [\<lparr>video_id = newVideoId env, shipmentId = dto_shipmentId dto, videoUrl = url,
                  uploadedById = uid\<rparr>]\<rparr>)"
    using assms found
    by (auto simp add: foreignKeysHold_def list_all_iff find_snoc split: option.splits)
  then have "foreignKeysHold (db\<lparr>proofVideos := proofVideos db
              @ [\<lparr>video_id = newVideoId env, shipmentId = dto_shipmentId dto, videoUrl = url,
                  uploadedById = uid\<rparr>]\<rparr>
        \<lparr>shipments := updateUnique (\<lambda>x. shipment_id x = dto_shipmentId dto)
                          (\<lambda>x. x\<lparr>status := SEALED\<rparr>)
                          (shipments (db\<lparr>proofVideos := proofVideos db
              @ [\<lparr>video_id = newVideoId env, shipmentId = dto_shipmentId dto, videoUrl = url,
                  uploadedById = uid\<rparr>]\<rparr>))\<rparr>)"
    by (rule foreignKeysHold_shipments_update) simp
  then show ?thesis unfolding stored(5) by simp
qed

lemma foreignKeysHold_handle:
  "foreignKeysHold db \<Longrightarrow> foreignKeysHold (handle db r)"
  by (cases r) (simp_all add: foreignKeysHold_create foreignKeysHold_update foreignKeysHold_upload)

lemma foreignKeysHold_states:
  "foreignKeysHold db \<Longrightarrow> d \<in> set (states db rs) \<Longrightarrow> foreignKeysHold d"
proof (induction rs arbitrary: db)
  case Nil
  then show ?case by simp
next
  case (Cons r rs)
  from Cons.prems(2) consider "d = db" | "d \<in> set (states (handle db r) rs)" by auto
  then show ?case
  proof cases
    case 1
    with Cons.prems(1) show ?thesis by simp
  next
    case 2
    from Cons.IH[OF foreignKeysHold_handle[OF Cons.prems(1)] 2] show ?thesis .
  qed
qed

lemma foreignKeysHold_empty: "foreignKeysHold emptyDb"
  by (simp add: foreignKeysHold_def emptyDb_def)

lemma foreignKeysHold_cleanup:
  "foreignKeysHold db \<Longrightarrow> foreignKeysHold (snd (ShareLinksService_cleanupExpired now db))"
  by (auto simp add: ShareLinksService_cleanupExpired_def ShareLinksRepository_deleteExpired_def
      foreignKeysHold_def list_all_iff ShipmentsRepository_findById_def)

text \<open>
  Every successful upload passes through a state in which the video is stored and the
  shipment is not sealed.
\<close>

lemma upload_intermediate_state:
  assumes "VideosService_upload env db dto fl uid = (Inr video, db')"
  shows "\<exists>db1. VideosService_upload_writes env db dto fl uid = [db1, db']
           \<and> VideosRepository_findByShipmentId db1 (dto_shipmentId dto) = Some video
           \<and> statusOf db1 (dto_shipmentId dto) = statusOf db (dto_shipmentId dto)
           \<and> statusOf db1 (dto_shipmentId dto) \<noteq> Some SEALED"
proof (cases rule: upload_cases[where db=db and dto=dto and env=env and fl=fl and uid=uid])
  case (checks e)
  with assms show ?thesis by simp
next
  case (s3 s m)
  with assms show ?thesis by simp
next
  case (clash s)
  with assms show ?thesis by simp
next
  case (stored s url)
  from stored(1) have novideo: "VideosRepository_findByShipmentId db (dto_shipmentId dto) = None"
    and found: "ShipmentsRepository_findById db (dto_shipmentId dto) = Some s"
    and st: "status s \<noteq> SEALED"
    by (simp_all add: uploadChecks_Inr)
  from stored(5) assms have video: "video = \<lparr>video_id = newVideoId env,
        shipmentId = dto_shipmentId dto, videoUrl = url, uploadedById = uid\<rparr>"
    and db': "db' = db\<lparr>proofVideos := proofVideos db @ [video],
           shipments := updateUnique (\<lambda>x. shipment_id x = dto_shipmentId dto)
                          (\<lambda>x. x\<lparr>status := SEALED\<rparr>) (shipments db)\<rparr>"
    by simp_all
  let ?db1 = "db\<lparr>proofVideos := proofVideos db @ [video]\<rparr>"
  have "VideosService_upload_writes env db dto fl uid = [?db1, db']"
    using upload_writes_success[OF stored(1-4), of uid] by (simp add: video db')
  moreover have "VideosRepository_findByShipmentId ?db1 (dto_shipmentId dto) = Some video"
    using novideo by (simp add: VideosRepository_findByShipmentId_def find_snoc video)
  moreover have "statusOf ?db1 (dto_shipmentId dto) = statusOf db (dto_shipmentId dto)"
    by (simp add: statusOf_def)
  moreover have "statusOf ?db1 (dto_shipmentId dto) \<noteq> Some SEALED"
    using found st by (simp add: statusOf_def)
  ultimately show ?thesis by blast
qed

section \<open>Facts about the example data\<close>

lemma filter_none_of_find:
  "find P xs = None \<Longrightarrow> filter P xs = []"
  by (simp add: find_None_iff filter_empty_conv)

lemma exampleDb_no_video:
  "VideosRepository_findByShipmentId (exampleDb st) sid = None"
  by (simp add: exampleDb_def VideosRepository_findByShipmentId_def)

lemma exampleDb_status: "statusOf (exampleDb st) ''s1'' = Some st"
  by (simp add: statusOf_def exampleDb_find exampleShipment_status)

lemma exampleDb_foreignKeys: "foreignKeysHold (exampleDb st)"
  by (simp add: foreignKeysHold_def exampleDb_def)

lemma exampleEnv_send: "s3Send (exampleEnv outcome) = outcome"
  by (simp add: exampleEnv_def)

lemma example_uploadFile:
  "S3Service_uploadFile (s3Config (exampleEnv SendOk)) (randomUUID (exampleEnv SendOk)) SendOk
     exampleFile ''proof-videos'' = Inr (videoUrl exampleVideo)"
  by (simp add: S3Service_uploadFile_def exampleEnv_def exampleFile_def exampleVideo_def)

lemma example_uploadChecks:
  "st \<noteq> SEALED \<Longrightarrow> st \<noteq> FAILED \<Longrightarrow>
   uploadChecks (exampleDb st) (UploadVideoDto ''s1'') = Inr (exampleShipment st)"
  by (simp add: uploadChecks_Inr exampleDb_no_video exampleDb_find exampleShipment_status)

lemma example_upload:
  assumes "st \<noteq> SEALED" and "st \<noteq> FAILED"
  shows "VideosService_upload (exampleEnv SendOk) (exampleDb st) (UploadVideoDto ''s1'')
      exampleFile ''u1''
     = (Inr exampleVideo,
        \<lparr>shipments = [exampleShipment SEALED], proofVideos = [exampleVideo], shareLinks = []\<rparr>)"
proof -
  have "VideosService_upload (exampleEnv SendOk) (exampleDb st) (UploadVideoDto ''s1'')
      exampleFile ''u1''
     = (Inr \<lparr>video_id = newVideoId (exampleEnv SendOk), shipmentId = ''s1'',
              videoUrl = videoUrl exampleVideo, uploadedById = ''u1''\<rparr>,
        (exampleDb st)\<lparr>proofVideos := proofVideos (exampleDb st)
              @ [\<lparr>video_id = newVideoId (exampleEnv SendOk), shipmentId = ''s1'',
                  videoUrl = videoUrl exampleVideo, uploadedById = ''u1''\<rparr>],
           shipments := updateUnique (\<lambda>x. shipment_id x = ''s1'')
                          (\<lambda>x. x\<lparr>status := SEALED\<rparr>) (shipments (exampleDb st))\<rparr>)"
    using upload_success[OF example_uploadChecks[OF assms] _ _ example_uploadFile, of "''u1''"]
    by (simp add: exampleEnv_def exampleDb_def)
  then show ?thesis
    by (simp add: exampleEnv_def exampleDb_def exampleVideo_def exampleShipment_def)
qed

lemma example_updates:
  "ShipmentsService_update (exampleDb CREATED) ''s1'' (UpdateShipmentDto (Some RECORDING))
     = (Inr (exampleShipment RECORDING), exampleDb RECORDING)"
  "ShipmentsService_update (exampleDb RECORDING) ''s1'' (UpdateShipmentDto (Some PROCESSING))
     = (Inr (exampleShipment PROCESSING), exampleDb PROCESSING)"
  "ShipmentsService_update (exampleDb PROCESSING) ''s1'' (UpdateShipmentDto (Some SEALED))
     = (Inr (exampleShipment SEALED), exampleDb SEALED)"
  by (simp_all add: update_valid[OF exampleDb_find] exampleShipment_status)
     (simp_all add: exampleDb_def exampleShipment_def)

lemma example_create:
  "ShipmentsService_create ''s1'' emptyDb (CreateShipmentDto ''AWB1'' ''org-A'') ''u1''
     = (Inr (exampleShipment CREATED), exampleDb CREATED)"
  by (simp add: ShipmentsService_create_def ShipmentsRepository_create_def
      ShipmentsRepository_findByAwb_def ShipmentsRepository_findById_def emptyDb_def
      exampleDb_def exampleShipment_def Let_def)

section \<open>Claims about the lifecycle\<close>

text \<open>
  Claim C1, as the code has it. For a shipment with current status \<open>a\<close> and a requested
  status \<open>b\<close> different from \<open>a\<close>, \<open>ShipmentsService.update\<close> succeeds exactly when
  \<open>b\<close> is in the allowed-next list of \<open>a\<close>, and then stores \<open>b\<close> and nothing else.
  When it fails and \<open>a\<close> is not \<open>SEALED\<close>, the exception is the invalid-transition
  one, with \<open>a\<close>, \<open>b\<close> and the allowed list in its message; when \<open>a\<close> is \<open>SEALED\<close>
  the exception is the sealed-shipment one, thrown before the table is consulted. A
  failure leaves the database unchanged.
\<close>

theorem requestTransition_table:
  assumes "ShipmentsRepository_findById db i = Some s" and "b \<noteq> status s"
  shows "((\<exists>r. fst (ShipmentsService_update db i (UpdateShipmentDto (Some b))) = Inr r)
            \<longleftrightarrow> b \<in> set (validTransitions (status s)))
       \<and> (b \<in> set (validTransitions (status s)) \<longrightarrow>
            ShipmentsService_update db i (UpdateShipmentDto (Some b))
              = (Inr (s\<lparr>status := b\<rparr>),
                 db\<lparr>shipments := updateUnique (\<lambda>x. shipment_id x = i)
                                     (\<lambda>x. x\<lparr>status := b\<rparr>) (shipments db)\<rparr>))
       \<and> (status s \<noteq> SEALED \<and> b \<notin> set (validTransitions (status s)) \<longrightarrow>
            ShipmentsService_update db i (UpdateShipmentDto (Some b))
              = (Inl (invalidTransition (status s) b (validTransitions (status s))), db))
       \<and> (status s = SEALED \<longrightarrow>
            ShipmentsService_update db i (UpdateShipmentDto (Some b)) = (Inl sealedImmutable, db))"
proof (cases "status s = SEALED")
  case True
  with assms show ?thesis by (simp add: update_sealed)
next
  case False
  show ?thesis
  proof (cases "b \<in> set (validTransitions (status s))")
    case True
    with False assms show ?thesis by (simp add: update_valid)
  next
    case notin: False
    with False assms show ?thesis by (simp add: update_invalid)
  qed
qed

theorem requestTransition_table_witness:
  "ShipmentsRepository_findById (exampleDb CREATED) ''s1'' = Some (exampleShipment CREATED)
   \<and> SEALED \<noteq> status (exampleShipment CREATED)
   \<and> ShipmentsService_update (exampleDb CREATED) ''s1'' (UpdateShipmentDto (Some SEALED))
       = (Inl (invalidTransition CREATED SEALED [RECORDING, FAILED]), exampleDb CREATED)
   \<and> ShipmentsService_update (exampleDb CREATED) ''s1'' (UpdateShipmentDto (Some RECORDING))
       = (Inr (exampleShipment RECORDING), exampleDb RECORDING)"
  using requestTransition_table[of "exampleDb CREATED" "''s1''" "exampleShipment CREATED" SEALED]
    requestTransition_table[of "exampleDb CREATED" "''s1''" "exampleShipment CREATED" RECORDING]
  by (simp add: exampleDb_find exampleShipment_status)
     (simp add: exampleDb_def exampleShipment_def)

text \<open>
  Claim C1 as stated fails at a sealed shipment: a request to move it to \<open>FAILED\<close> is
  refused with the sealed-shipment exception, not with the invalid-transition one.
\<close>

theorem requestTransition_sealed_counterexample:
  "FAILED \<noteq> status (exampleShipment SEALED)
   \<and> ShipmentsRepository_findById (exampleDb SEALED) ''s1'' = Some (exampleShipment SEALED)
   \<and> fst (ShipmentsService_update (exampleDb SEALED) ''s1'' (UpdateShipmentDto (Some FAILED)))
       \<noteq> Inl (invalidTransition SEALED FAILED (validTransitions SEALED))
   \<and> fst (ShipmentsService_update (exampleDb SEALED) ''s1'' (UpdateShipmentDto (Some FAILED)))
       = Inl sealedImmutable"
  by (simp add: update_sealed[OF exampleDb_find] exampleShipment_status exampleDb_find
      sealedImmutable_def invalidTransition_def)

text \<open>
  Claim C5, as the code has it. A request for the status the shipment already has
  succeeds and changes nothing whenever that status is not \<open>SEALED\<close> (so also in
  \<open>FAILED\<close>); on a \<open>SEALED\<close> shipment it fails with the sealed-shipment exception.
  \<open>validateStateTransition\<close> itself accepts the same status in every state.
\<close>

theorem sameStatus_noop_unless_sealed:
  assumes "ShipmentsRepository_findById db i = Some s"
  shows "(status s \<noteq> SEALED \<longrightarrow>
            ShipmentsService_update db i (UpdateShipmentDto (Some (status s))) = (Inr s, db))
       \<and> (status s = SEALED \<longrightarrow>
            ShipmentsService_update db i (UpdateShipmentDto (Some (status s)))
              = (Inl sealedImmutable, db))
       \<and> validateStateTransition (status s) (status s) = Inr ()"
  using assms by (simp add: update_same update_sealed validateStateTransition_def)

theorem sameStatus_noop_unless_sealed_witness:
  "ShipmentsRepository_findById (exampleDb FAILED) ''s1'' = Some (exampleShipment FAILED)
   \<and> ShipmentsService_update (exampleDb FAILED) ''s1'' (UpdateShipmentDto (Some FAILED))
       = (Inr (exampleShipment FAILED), exampleDb FAILED)"
  using sameStatus_noop_unless_sealed[of "exampleDb FAILED" "''s1''" "exampleShipment FAILED"]
  by (simp add: exampleDb_find exampleShipment_status)

text \<open>
  Claim C5 as stated fails at \<open>SEALED\<close>: asking a sealed shipment for \<open>SEALED\<close> is
  an error, not a no-op success.
\<close>

theorem sameStatus_sealed_counterexample:
  "ShipmentsRepository_findById (exampleDb SEALED) ''s1'' = Some (exampleShipment SEALED)
   \<and> status (exampleShipment SEALED) = SEALED
   \<and> ShipmentsService_update (exampleDb SEALED) ''s1'' (UpdateShipmentDto (Some SEALED))
       = (Inl sealedImmutable, exampleDb SEALED)"
  by (simp add: update_sealed[OF exampleDb_find] exampleShipment_status exampleDb_find)

text \<open>
  Claim C3, as the code has it. On a \<open>SEALED\<close> shipment every call of
  \<open>ShipmentsService.update\<close> fails with the sealed-shipment exception, whatever the
  request (the check comes before the transition logic), and makes no repository call.
  On a \<open>FAILED\<close> shipment every request for another status fails with the
  invalid-transition exception and an empty allowed list, and makes no repository call;
  a request for \<open>FAILED\<close> again or with no status is accepted: it succeeds and makes
  the repository call, and the row it returns has the id, awb, status, organization and
  creator the shipment had. After any sequence of requests (updates, uploads, creations,
  to this or other shipments) a sealed or failed shipment still has the id, awb, status,
  organization and creator it had.
\<close>

theorem terminal_shipment_updates:
  assumes "ShipmentsRepository_findById db i = Some s"
    and "status s = SEALED \<or> status s = FAILED"
  shows "(status s = SEALED \<longrightarrow>
            ShipmentsService_update db i dto = (Inl sealedImmutable, db)
            \<and> ShipmentsService_update_writes db i dto = [])
       \<and> (\<forall>b. status s = FAILED \<and> dto_status dto = Some b \<and> b \<noteq> FAILED \<longrightarrow>
             ShipmentsService_update db i dto = (Inl (invalidTransition FAILED b []), db)
             \<and> ShipmentsService_update_writes db i dto = [])
       \<and> (status s = FAILED \<and> (dto_status dto = None \<or> dto_status dto = Some FAILED) \<longrightarrow>
             (\<exists>r. fst (ShipmentsService_update db i dto) = Inr r
                \<and> shipment_id r = shipment_id s \<and> awb r = awb s \<and> status r = FAILED
                \<and> organizationId r = organizationId s \<and> createdById r = createdById s)
             \<and> ShipmentsService_update_writes db i dto = [(i, dto)])
       \<and> (\<exists>r. ShipmentsRepository_findById (last (states db rs)) i = Some r
              \<and> shipment_id r = shipment_id s \<and> awb r = awb s \<and> status r = status s
              \<and> organizationId r = organizationId s \<and> createdById r = createdById s)"
proof (intro conjI)
  show "status s = SEALED \<longrightarrow>
            ShipmentsService_update db i dto = (Inl sealedImmutable, db)
            \<and> ShipmentsService_update_writes db i dto = []"
    using assms(1) by (simp add: update_sealed update_writes_sealed)
  show "\<forall>b. status s = FAILED \<and> dto_status dto = Some b \<and> b \<noteq> FAILED \<longrightarrow>
             ShipmentsService_update db i dto = (Inl (invalidTransition FAILED b []), db)
             \<and> ShipmentsService_update_writes db i dto = []"
  proof (intro allI impI)
    fix b assume h: "status s = FAILED \<and> dto_status dto = Some b \<and> b \<noteq> FAILED"
    then have dto: "dto = UpdateShipmentDto (Some b)" by (cases dto) simp
    from h update_invalid[OF assms(1), of b] update_writes_invalid[OF assms(1), of b]
    show "ShipmentsService_update db i dto = (Inl (invalidTransition FAILED b []), db)
             \<and> ShipmentsService_update_writes db i dto = []"
      by (simp add: dto)
  qed
  show "status s = FAILED \<and> (dto_status dto = None \<or> dto_status dto = Some FAILED) \<longrightarrow>
             (\<exists>r. fst (ShipmentsService_update db i dto) = Inr r
                \<and> shipment_id r = shipment_id s \<and> awb r = awb s \<and> status r = FAILED
                \<and> organizationId r = organizationId s \<and> createdById r = createdById s)
             \<and> ShipmentsService_update_writes db i dto = [(i, dto)]"
  proof
    assume h: "status s = FAILED \<and> (dto_status dto = None \<or> dto_status dto = Some FAILED)"
    then have ns: "status s \<noteq> SEALED" by simp
    from h consider "dto = UpdateShipmentDto None" | "dto = UpdateShipmentDto (Some (status s))"
      by (cases dto) auto
    then show "(\<exists>r. fst (ShipmentsService_update db i dto) = Inr r
                \<and> shipment_id r = shipment_id s \<and> awb r = awb s \<and> status r = FAILED
                \<and> organizationId r = organizationId s \<and> createdById r = createdById s)
             \<and> ShipmentsService_update_writes db i dto = [(i, dto)]"
    proof cases
      case 1
      with h show ?thesis
        by (simp add: update_none[OF assms(1) ns] update_writes_none[OF assms(1) ns])
    next
      case 2
      have "ShipmentsService_update db i dto = (Inr s, db)"
        and "ShipmentsService_update_writes db i dto = [(i, dto)]"
        using update_same[OF assms(1) ns] update_writes_same[OF assms(1) ns] 2 by simp_all
      with h show ?thesis by simp
    qed
  qed
  show "\<exists>r. ShipmentsRepository_findById (last (states db rs)) i = Some r
              \<and> shipment_id r = shipment_id s \<and> awb r = awb s \<and> status r = status s
              \<and> organizationId r = organizationId s \<and> createdById r = createdById s"
    using terminal_row_kept_states[OF assms, of rs] by simp
qed

theorem terminal_shipment_updates_witness:
  "ShipmentsRepository_findById (exampleDb FAILED) ''s1'' = Some (exampleShipment FAILED)
   \<and> status (exampleShipment FAILED) = FAILED
   \<and> ShipmentsService_update (exampleDb FAILED) ''s1'' (UpdateShipmentDto (Some RECORDING))
       = (Inl (invalidTransition FAILED RECORDING []), exampleDb FAILED)
   \<and> ShipmentsService_update_writes (exampleDb FAILED) ''s1'' (UpdateShipmentDto (Some RECORDING))
       = []
   \<and> ShipmentsRepository_findById
       (last (states (exampleDb FAILED)
          [PatchShipment ''s1'' (UpdateShipmentDto (Some CREATED)),
           PatchShipment ''s1'' (UpdateShipmentDto None),
           PostVideoUpload (exampleEnv SendOk) (UploadVideoDto ''s1'') exampleFile ''u1''])) ''s1''
       = Some (exampleShipment FAILED)
   \<and> status (exampleShipment SEALED) = SEALED
   \<and> ShipmentsService_update (exampleDb SEALED) ''s1'' (UpdateShipmentDto None)
       = (Inl sealedImmutable, exampleDb SEALED)
   \<and> ShipmentsService_update_writes (exampleDb SEALED) ''s1'' (UpdateShipmentDto None) = []"
proof -
  have kept: "ShipmentsRepository_findById
       (last (states (exampleDb FAILED)
          [PatchShipment ''s1'' (UpdateShipmentDto (Some CREATED)),
           PatchShipment ''s1'' (UpdateShipmentDto None),
           PostVideoUpload (exampleEnv SendOk) (UploadVideoDto ''s1'') exampleFile ''u1''])) ''s1''
       = Some (exampleShipment FAILED)"
    by (rule terminal_row_kept_states[OF exampleDb_find]) (simp add: exampleShipment_status)
  have failed: "ShipmentsService_update (exampleDb FAILED) ''s1'' (UpdateShipmentDto (Some RECORDING))
       = (Inl (invalidTransition FAILED RECORDING []), exampleDb FAILED)
   \<and> ShipmentsService_update_writes (exampleDb FAILED) ''s1'' (UpdateShipmentDto (Some RECORDING))
       = []"
    using terminal_shipment_updates[of "exampleDb FAILED" "''s1''" "exampleShipment FAILED"
        "UpdateShipmentDto (Some RECORDING)"]
    by (simp add: exampleDb_find exampleShipment_status)
  have sealed: "ShipmentsService_update (exampleDb SEALED) ''s1'' (UpdateShipmentDto None)
       = (Inl sealedImmutable, exampleDb SEALED)
   \<and> ShipmentsService_update_writes (exampleDb SEALED) ''s1'' (UpdateShipmentDto None) = []"
    using terminal_shipment_updates[of "exampleDb SEALED" "''s1''" "exampleShipment SEALED"
        "UpdateShipmentDto None"]
    by (simp add: exampleDb_find exampleShipment_status)
  from failed sealed kept exampleDb_find[of FAILED] exampleShipment_status[of FAILED]
    exampleShipment_status[of SEALED]
  show ?thesis by blast
qed

text \<open>
  Claim C3 as stated fails at a \<open>FAILED\<close> shipment: an update that asks for \<open>FAILED\<close>
  again, or for no status at all, does not fail; it succeeds and makes the repository
  call.
\<close>

theorem failed_shipment_accepts_update_counterexample:
  "ShipmentsRepository_findById (exampleDb FAILED) ''s1'' = Some (exampleShipment FAILED)
   \<and> status (exampleShipment FAILED) = FAILED
   \<and> ShipmentsService_update (exampleDb FAILED) ''s1'' (UpdateShipmentDto (Some FAILED))
       = (Inr (exampleShipment FAILED), exampleDb FAILED)
   \<and> ShipmentsService_update_writes (exampleDb FAILED) ''s1'' (UpdateShipmentDto (Some FAILED))
       = [(''s1'', UpdateShipmentDto (Some FAILED))]
   \<and> ShipmentsService_update (exampleDb FAILED) ''s1'' (UpdateShipmentDto None)
       = (Inr (exampleShipment FAILED), exampleDb FAILED)
   \<and> ShipmentsService_update_writes (exampleDb FAILED) ''s1'' (UpdateShipmentDto None)
       = [(''s1'', UpdateShipmentDto None)]"
proof -
  have ns: "status (exampleShipment FAILED) \<noteq> SEALED" by (simp add: exampleShipment_status)
  show ?thesis
    using update_same[OF exampleDb_find ns] update_writes_same[OF exampleDb_find ns]
      update_none[OF exampleDb_find ns] update_writes_none[OF exampleDb_find ns]
    by (simp add: exampleDb_find exampleShipment_status)
qed

section \<open>Claims about the upload\<close>

text \<open>
  Claim C4. \<open>VideosService.upload\<close> fails with the conflict exception whenever a proof
  video exists for the shipment; with the not-found exception when no shipment has the
  given id (in a database whose foreign keys hold, where such an id has no video either);
  and with one of the two invalid-state exceptions exactly when no video exists and the
  shipment's status is \<open>SEALED\<close> or \<open>FAILED\<close>. The checks pass exactly when no video
  exists and the status is \<open>CREATED\<close>, \<open>RECORDING\<close> or \<open>PROCESSING\<close>. A failed check
  writes nothing and leaves the database as it was.
\<close>

theorem upload_guards:
  "(VideosRepository_findByShipmentId db (dto_shipmentId dto) \<noteq> None \<longrightarrow>
      VideosService_upload env db dto fl uid = (Inl (videoExists (dto_shipmentId dto)), db))
   \<and> (foreignKeysHold db \<and> ShipmentsRepository_findById db (dto_shipmentId dto) = None \<longrightarrow>
      VideosService_upload env db dto fl uid = (Inl (shipmentNotFound (dto_shipmentId dto)), db))
   \<and> (VideosRepository_findByShipmentId db (dto_shipmentId dto) = None
        \<and> statusOf db (dto_shipmentId dto) = Some SEALED \<longrightarrow>
      VideosService_upload env db dto fl uid = (Inl uploadToSealed, db))
   \<and> (VideosRepository_findByShipmentId db (dto_shipmentId dto) = None
        \<and> statusOf db (dto_shipmentId dto) = Some FAILED \<longrightarrow>
      VideosService_upload env db dto fl uid = (Inl uploadToFailed, db))
   \<and> (fst (VideosService_upload env db dto fl uid) \<in> {Inl uploadToSealed, Inl uploadToFailed}
        \<longleftrightarrow> VideosRepository_findByShipmentId db (dto_shipmentId dto) = None
             \<and> statusOf db (dto_shipmentId dto) \<in> {Some SEALED, Some FAILED})
   \<and> ((\<exists>s. uploadChecks db dto = Inr s)
        \<longleftrightarrow> VideosRepository_findByShipmentId db (dto_shipmentId dto) = None
             \<and> statusOf db (dto_shipmentId dto) \<in> {Some CREATED, Some RECORDING, Some PROCESSING})
   \<and> (\<forall>e. uploadChecks db dto = Inl e \<longrightarrow>
         VideosService_upload env db dto fl uid = (Inl e, db)
         \<and> VideosService_upload_writes env db dto fl uid = [])"
proof (intro conjI)
  show "VideosRepository_findByShipmentId db (dto_shipmentId dto) \<noteq> None \<longrightarrow>
      VideosService_upload env db dto fl uid = (Inl (videoExists (dto_shipmentId dto)), db)"
    by (simp add: upload_video_exists)
  show "foreignKeysHold db \<and> ShipmentsRepository_findById db (dto_shipmentId dto) = None \<longrightarrow>
      VideosService_upload env db dto fl uid = (Inl (shipmentNotFound (dto_shipmentId dto)), db)"
    by (simp add: upload_no_shipment foreignKeys_no_shipment_no_video)
  show "VideosRepository_findByShipmentId db (dto_shipmentId dto) = None
        \<and> statusOf db (dto_shipmentId dto) = Some SEALED \<longrightarrow>
      VideosService_upload env db dto fl uid = (Inl uploadToSealed, db)"
    by (auto simp: statusOf_def upload_sealed_or_failed)
  show "VideosRepository_findByShipmentId db (dto_shipmentId dto) = None
        \<and> statusOf db (dto_shipmentId dto) = Some FAILED \<longrightarrow>
      VideosService_upload env db dto fl uid = (Inl uploadToFailed, db)"
    by (auto simp: statusOf_def upload_sealed_or_failed)
  show "fst (VideosService_upload env db dto fl uid) \<in> {Inl uploadToSealed, Inl uploadToFailed}
        \<longleftrightarrow> VideosRepository_findByShipmentId db (dto_shipmentId dto) = None
             \<and> statusOf db (dto_shipmentId dto) \<in> {Some SEALED, Some FAILED}"
    by (rule upload_invalid_state_iff)
  show "(\<exists>s. uploadChecks db dto = Inr s)
        \<longleftrightarrow> VideosRepository_findByShipmentId db (dto_shipmentId dto) = None
             \<and> statusOf db (dto_shipmentId dto) \<in> {Some CREATED, Some RECORDING, Some PROCESSING}"
    by (rule uploadChecks_passes_iff)
  show "\<forall>e. uploadChecks db dto = Inl e \<longrightarrow>
         VideosService_upload env db dto fl uid = (Inl e, db)
         \<and> VideosService_upload_writes env db dto fl uid = []"
    by (simp add: upload_checks_fail VideosService_upload_writes_def)
qed

theorem upload_guards_witness:
  "foreignKeysHold (exampleDb FAILED)
   \<and> ShipmentsRepository_findById (exampleDb FAILED) ''s2'' = None
   \<and> VideosService_upload (exampleEnv SendOk) (exampleDb FAILED) (UploadVideoDto ''s2'')
        exampleFile ''u1'' = (Inl (shipmentNotFound ''s2''), exampleDb FAILED)
   \<and> VideosRepository_findByShipmentId (exampleDb FAILED) ''s1'' = None
   \<and> statusOf (exampleDb FAILED) ''s1'' = Some FAILED
   \<and> VideosService_upload (exampleEnv SendOk) (exampleDb FAILED) (UploadVideoDto ''s1'')
        exampleFile ''u1'' = (Inl uploadToFailed, exampleDb FAILED)"
  using upload_guards[of "exampleDb FAILED" "UploadVideoDto ''s2''" "exampleEnv SendOk"
      exampleFile "''u1''"]
    upload_guards[of "exampleDb FAILED" "UploadVideoDto ''s1''" "exampleEnv SendOk"
      exampleFile "''u1''"]
  by (simp add: exampleDb_no_video exampleDb_status exampleDb_foreignKeys)
     (simp add: exampleDb_def ShipmentsRepository_findById_def exampleShipment_def)

text \<open>
  Claim C7. When \<open>VideosService.upload\<close> returns a proof video, the shipment's status
  in the database is \<open>SEALED\<close>, the returned video is the one row of \<open>proof_videos\<close>
  for that shipment (the row just appended, with the generated id, the shipment id, the
  uploader and the URL that S3 returned), and the shipment was in \<open>CREATED\<close>,
  \<open>RECORDING\<close> or \<open>PROCESSING\<close> before.
\<close>

theorem upload_success_seals:
  assumes "VideosService_upload env db dto fl uid = (Inr video, db')"
  shows "statusOf db' (dto_shipmentId dto) = Some SEALED
       \<and> filter (\<lambda>v. shipmentId v = dto_shipmentId dto) (proofVideos db') = [video]
       \<and> proofVideos db' = proofVideos db @ [video]
       \<and> video_id video = newVideoId env \<and> shipmentId video = dto_shipmentId dto
       \<and> uploadedById video = uid
       \<and> S3Service_uploadFile (s3Config env) (randomUUID env) (s3Send env) fl ''proof-videos''
           = Inr (videoUrl video)
       \<and> statusOf db (dto_shipmentId dto) \<in> {Some CREATED, Some RECORDING, Some PROCESSING}"
proof (cases rule: upload_cases[where db=db and dto=dto and env=env and fl=fl and uid=uid])
  case (checks e)
  with assms show ?thesis by simp
next
  case (s3 s m)
  with assms show ?thesis by simp
next
  case (clash s)
  with assms show ?thesis by simp
next
  case (stored s url)
  from stored(1) have novideo: "VideosRepository_findByShipmentId db (dto_shipmentId dto) = None"
    and found: "ShipmentsRepository_findById db (dto_shipmentId dto) = Some s"
    by (simp_all add: uploadChecks_Inr)
  from stored(5) assms have video: "video = \<lparr>video_id = newVideoId env,
        shipmentId = dto_shipmentId dto, videoUrl = url, uploadedById = uid\<rparr>"
    and db': "db' = db\<lparr>proofVideos := proofVideos db @ [video],
           shipments := updateUnique (\<lambda>x. shipment_id x = dto_shipmentId dto)
                          (\<lambda>x. x\<lparr>status := SEALED\<rparr>) (shipments db)\<rparr>"
    by simp_all
  have "statusOf db' (dto_shipmentId dto) = Some SEALED"
    using found unfolding db' statusOf_def ShipmentsRepository_findById_def
    by (simp add: findById_updateUnique_same)
  moreover have "filter (\<lambda>v. shipmentId v = dto_shipmentId dto) (proofVideos db') = [video]"
    using novideo unfolding db' VideosRepository_findByShipmentId_def
    by (simp add: filter_none_of_find video)
  moreover have "statusOf db (dto_shipmentId dto) \<in> {Some CREATED, Some RECORDING, Some PROCESSING}"
    using uploadChecks_passes_iff[of db dto] stored(1) by simp
  ultimately show ?thesis
    using stored(2,4) by (simp add: db' video)
qed

theorem upload_success_seals_witness:
  "VideosService_upload (exampleEnv SendOk) (exampleDb RECORDING) (UploadVideoDto ''s1'')
      exampleFile ''u1''
     = (Inr exampleVideo,
        \<lparr>shipments = [exampleShipment SEALED], proofVideos = [exampleVideo], shareLinks = []\<rparr>)
   \<and> statusOf \<lparr>shipments = [exampleShipment SEALED], proofVideos = [exampleVideo],
               shareLinks = []\<rparr> ''s1'' = Some SEALED
   \<and> filter (\<lambda>v. shipmentId v = ''s1'')
        (proofVideos \<lparr>shipments = [exampleShipment SEALED], proofVideos = [exampleVideo],
               shareLinks = []\<rparr>) = [exampleVideo]"
  using upload_success_seals[of "exampleEnv SendOk" "exampleDb RECORDING" "UploadVideoDto ''s1''"
      exampleFile "''u1''" exampleVideo
      "\<lparr>shipments = [exampleShipment SEALED], proofVideos = [exampleVideo], shareLinks = []\<rparr>"]
  by (simp add: example_upload)

text \<open>
  Claim C8. When the checks pass and the S3 request throws, \<open>VideosService.upload\<close>
  fails with the \<open>InternalServerErrorException\<close> of \<open>S3Service.uploadFile\<close>, makes no
  write, and returns the database as it was; the checks still pass afterwards, so the
  call can be repeated.
\<close>

theorem upload_s3_failure_persists_nothing:
  assumes "uploadChecks db dto = Inr s" and "s3Send env = SendThrows message"
  shows "VideosService_upload env db dto fl uid
           = (Inl (InternalServerErrorException (''Failed to upload file to S3: '' @ message)), db)
       \<and> VideosService_upload_writes env db dto fl uid = []
       \<and> uploadChecks (snd (VideosService_upload env db dto fl uid)) dto = Inr s"
  using assms
  by (simp add: upload_s3_fail VideosService_upload_writes_def S3Service_uploadFile_def)

theorem upload_s3_failure_persists_nothing_witness:
  "uploadChecks (exampleDb PROCESSING) (UploadVideoDto ''s1'') = Inr (exampleShipment PROCESSING)
   \<and> s3Send (exampleEnv (SendThrows ''timeout'')) = SendThrows ''timeout''
   \<and> VideosService_upload (exampleEnv (SendThrows ''timeout'')) (exampleDb PROCESSING)
        (UploadVideoDto ''s1'') exampleFile ''u1''
       = (Inl (InternalServerErrorException ''Failed to upload file to S3: timeout''),
          exampleDb PROCESSING)
   \<and> VideosService_upload (exampleEnv SendOk)
        (snd (VideosService_upload (exampleEnv (SendThrows ''timeout'')) (exampleDb PROCESSING)
               (UploadVideoDto ''s1'') exampleFile ''u1''))
        (UploadVideoDto ''s1'') exampleFile ''u1''
       = (Inr exampleVideo,
          \<lparr>shipments = [exampleShipment SEALED], proofVideos = [exampleVideo],
           shareLinks = []\<rparr>)"
  using upload_s3_failure_persists_nothing[of "exampleDb PROCESSING" "UploadVideoDto ''s1''"
      "exampleShipment PROCESSING" "exampleEnv (SendThrows ''timeout'')" "''timeout''"
      exampleFile "''u1''"]
  by (simp add: example_uploadChecks example_upload exampleEnv_send)

text \<open>
  Claim C2 at a concrete call. For a shipment in \<open>PROCESSING\<close> with no video, a
  successful upload makes two writes; after the first, the database holds the proof
  video while the shipment is still \<open>PROCESSING\<close>.
\<close>

theorem upload_writes_not_atomic:
  "VideosService_upload_writes (exampleEnv SendOk) (exampleDb PROCESSING) (UploadVideoDto ''s1'')
      exampleFile ''u1''
     = [\<lparr>shipments = [exampleShipment PROCESSING], proofVideos = [exampleVideo],
         shareLinks = []\<rparr>,
        \<lparr>shipments = [exampleShipment SEALED], proofVideos = [exampleVideo],
         shareLinks = []\<rparr>]
   \<and> VideosRepository_findByShipmentId
        \<lparr>shipments = [exampleShipment PROCESSING], proofVideos = [exampleVideo],
         shareLinks = []\<rparr> ''s1'' = Some exampleVideo
   \<and> statusOf \<lparr>shipments = [exampleShipment PROCESSING], proofVideos = [exampleVideo],
         shareLinks = []\<rparr> ''s1'' = Some PROCESSING"
proof -
  have "VideosService_upload_writes (exampleEnv SendOk) (exampleDb PROCESSING)
          (UploadVideoDto ''s1'') exampleFile ''u1''
     = [\<lparr>shipments = [exampleShipment PROCESSING], proofVideos = [exampleVideo],
         shareLinks = []\<rparr>,
        \<lparr>shipments = [exampleShipment SEALED], proofVideos = [exampleVideo],
         shareLinks = []\<rparr>]"
    using upload_writes_success[OF example_uploadChecks _ _ example_uploadFile,
        of PROCESSING "''u1''"]
    by (simp add: exampleEnv_def exampleDb_def exampleVideo_def exampleShipment_def)
  then show ?thesis
    by (simp add: VideosRepository_findByShipmentId_def statusOf_def
        ShipmentsRepository_findById_def exampleVideo_def exampleShipment_def)
qed

section \<open>Claims about share links\<close>

text \<open>
  Claim C9. \<open>ShareLinksService.validateToken\<close> never changes the database. It fails
  with the not-found exception exactly when no share link has the token; with the
  expired exception exactly when the link with the token has \<open>now > expiresAt\<close>; and
  otherwise (exactly when \<open>now \<le> expiresAt\<close>) returns that link with its proof video
  included: the video its \<open>proofVideoId\<close> names, which exists, with its shipment, when
  the foreign keys hold. The three outcomes exclude each other and one always occurs.
\<close>

theorem validateToken_outcomes:
  "snd (ShareLinksService_validateToken now db tok) = db
   \<and> (fst (ShareLinksService_validateToken now db tok) = Inl (NotFoundException ''Invalid share link'')
        \<longleftrightarrow> tok \<notin> token ` set (shareLinks db))
   \<and> (fst (ShareLinksService_validateToken now db tok)
          = Inl (UnauthorizedException ''Share link has expired'')
        \<longleftrightarrow> (\<exists>l. find (\<lambda>l. token l = tok) (shareLinks db) = Some l \<and> now > expiresAt l))
   \<and> ((\<exists>r. fst (ShareLinksService_validateToken now db tok) = Inr r)
        \<longleftrightarrow> (\<exists>l. find (\<lambda>l. token l = tok) (shareLinks db) = Some l \<and> now \<le> expiresAt l))
   \<and> (\<forall>r. fst (ShareLinksService_validateToken now db tok) = Inr r \<longrightarrow>
         token (shareLink r) = tok \<and> shareLink r \<in> set (shareLinks db)
         \<and> proofVideo r = find (\<lambda>v. video_id v = proofVideoId (shareLink r)) (proofVideos db)
         \<and> (foreignKeysHold db \<longrightarrow>
              (\<exists>v. proofVideo r = Some v \<and> v \<in> set (proofVideos db)
                 \<and> video_id v = proofVideoId (shareLink r)
                 \<and> shipment r = ShipmentsRepository_findById db (shipmentId v))))"
proof (cases "find (\<lambda>l. token l = tok) (shareLinks db)")
  case None
  then have "tok \<notin> token ` set (shareLinks db)" by (auto simp: find_None_iff)
  with None show ?thesis
    by (simp add: validateToken_reads_only validateToken_unknown)
next
  case (Some l)
  then have mem: "l \<in> set (shareLinks db)" and tok: "token l = tok"
    by (auto simp: find_Some_iff)
  then have "tok \<in> token ` set (shareLinks db)" by auto
  moreover have "foreignKeysHold db \<longrightarrow>
              (\<exists>v. proofVideo (includeVideo db l) = Some v \<and> v \<in> set (proofVideos db)
                 \<and> video_id v = proofVideoId l
                 \<and> shipment (includeVideo db l) = ShipmentsRepository_findById db (shipmentId v))"
    using includeVideo_foreignKeys[OF _ mem] by blast
  ultimately show ?thesis using Some mem tok
    by (auto simp add: validateToken_reads_only validateToken_found includeVideo_bound)
qed

theorem validateToken_outcomes_witness:
  "ShareLinksService_validateToken 100 exampleLinkDb ''aa''
     = (Inr \<lparr>shareLink = exampleLink ''l1'' ''aa'' 100, proofVideo = Some exampleVideo,
             shipment = Some (exampleShipment SEALED)\<rparr>, exampleLinkDb)
   \<and> ShareLinksService_validateToken 101 exampleLinkDb ''aa''
     = (Inl (UnauthorizedException ''Share link has expired''), exampleLinkDb)
   \<and> ShareLinksService_validateToken 100 exampleLinkDb ''zz''
     = (Inl (NotFoundException ''Invalid share link''), exampleLinkDb)
   \<and> foreignKeysHold exampleLinkDb"
  using validateToken_outcomes[of 100 exampleLinkDb "''aa''"]
    validateToken_outcomes[of 101 exampleLinkDb "''aa''"]
    validateToken_outcomes[of 100 exampleLinkDb "''zz''"]
  by (simp add: ShareLinksService_validateToken_def ShareLinksRepository_findByToken_def
      includeVideo_def exampleLinkDb_def exampleLink_def exampleVideo_def exampleShipment_def
      ShipmentsRepository_findById_def foreignKeysHold_def)

text \<open>
  Claim C10. \<open>ShareLinksService.cleanupExpired\<close> at time \<open>now\<close> always returns a
  count, never an exception: the number of share links with \<open>expiresAt < now\<close>. It
  removes exactly those links and nothing else, and a second call at the same time
  returns 0 and changes nothing (a second call at a later time returns the number of
  links that expired in between).
\<close>

theorem cleanupExpired_exact:
  "fst (ShareLinksService_cleanupExpired now db)
     = Inr (length (filter (\<lambda>l. expiresAt l < now) (shareLinks db)))
   \<and> snd (ShareLinksService_cleanupExpired now db)
     = db\<lparr>shareLinks := filter (\<lambda>l. \<not> expiresAt l < now) (shareLinks db)\<rparr>
   \<and> set (shareLinks (snd (ShareLinksService_cleanupExpired now db)))
     = set (shareLinks db) - {l. expiresAt l < now}
   \<and> ShareLinksService_cleanupExpired now (snd (ShareLinksService_cleanupExpired now db))
     = (Inr 0, snd (ShareLinksService_cleanupExpired now db))
   \<and> fst (ShareLinksService_cleanupExpired later (snd (ShareLinksService_cleanupExpired now db)))
     = Inr (length (filter (\<lambda>l. \<not> expiresAt l < now \<and> expiresAt l < later) (shareLinks db)))"
  by (auto simp add: ShareLinksService_cleanupExpired_def ShareLinksRepository_deleteExpired_def
      conj_commute)

theorem cleanupExpired_exact_witness:
  "ShareLinksService_cleanupExpired 100 exampleLinkDb
     = (Inr 1, exampleLinkDb\<lparr>shareLinks := [exampleLink ''l1'' ''aa'' 100,
                                              exampleLink ''l2'' ''bb'' 200]\<rparr>)
   \<and> ShareLinksService_cleanupExpired 100
        (exampleLinkDb\<lparr>shareLinks := [exampleLink ''l1'' ''aa'' 100,
                                       exampleLink ''l2'' ''bb'' 200]\<rparr>)
     = (Inr 0, exampleLinkDb\<lparr>shareLinks := [exampleLink ''l1'' ''aa'' 100,
                                              exampleLink ''l2'' ''bb'' 200]\<rparr>)
   \<and> ShareLinksService_cleanupExpired 100 emptyDb = (Inr 0, emptyDb)"
  using cleanupExpired_exact[of 100 exampleLinkDb] cleanupExpired_exact[of 100 emptyDb]
  by (simp add: ShareLinksService_cleanupExpired_def ShareLinksRepository_deleteExpired_def
      exampleLinkDb_def exampleLink_def emptyDb_def)

section \<open>Claims about sequences of requests\<close>

text \<open>
  Claim C6, as the code has it. Along any sequence of requests (create, update, upload),
  every change of a shipment's status is a transition of the table, a seal from
  \<open>CREATED\<close>, \<open>RECORDING\<close> or \<open>PROCESSING\<close>, or the shipment's creation. Along a
  sequence of update requests alone every change is a transition of the table, and a
  shipment that starts in \<open>CREATED\<close> and ends \<open>SEALED\<close> has gone through exactly
  \<open>CREATED\<close>, \<open>RECORDING\<close>, \<open>PROCESSING\<close>, \<open>SEALED\<close>, in this order.
\<close>

theorem sealed_by_transitions_is_linear:
  "successively (\<lambda>x y. tableStep x y \<or> sealStep x y \<or> createStep x y) (statusHistory db rs i)
   \<and> successively tableStep (statusHistory db (map (\<lambda>(j, dto). PatchShipment j dto) patches) i)
   \<and> (statusOf db i = Some CREATED
        \<and> statusOf (last (states db (map (\<lambda>(j, dto). PatchShipment j dto) patches))) i
            = Some SEALED
      \<longrightarrow> statusHistory db (map (\<lambda>(j, dto). PatchShipment j dto) patches) i
            = [Some CREATED, Some RECORDING, Some PROCESSING, Some SEALED])"
proof (intro conjI impI)
  show "successively (\<lambda>x y. tableStep x y \<or> sealStep x y \<or> createStep x y)
          (statusHistory db rs i)"
    by (rule successively_history) (rule handle_status_step)
next
  let ?ps = "map (\<lambda>(j, dto). PatchShipment j dto) patches"
  show chain: "successively tableStep (statusHistory db ?ps i)"
    by (rule successively_history) (rule patch_requests_status_step)
  assume h: "statusOf db i = Some CREATED \<and> statusOf (last (states db ?ps)) i = Some SEALED"
  let ?raw = "map (\<lambda>d. statusOf d i) (states db ?ps)"
  have ne: "?raw \<noteq> []" by (simp add: states_nonempty)
  have "hd (statusHistory db ?ps i) = Some CREATED"
    using h by (simp add: statusHistory_def hd_map states_nonempty)
  moreover have "statusHistory db ?ps i \<noteq> []"
    using ne by (simp add: statusHistory_def)
  ultimately obtain xs where xs: "statusHistory db ?ps i = Some CREATED # xs"
    by (cases "statusHistory db ?ps i") auto
  have "last (statusHistory db ?ps i) = Some SEALED"
    using h by (simp add: statusHistory_def last_map states_nonempty)
  with chain xs have "Some CREATED # xs = map Some (pathToSealed CREATED)"
    by (intro table_path_sealed) simp_all
  with xs show "statusHistory db ?ps i
            = [Some CREATED, Some RECORDING, Some PROCESSING, Some SEALED]" by simp
qed

theorem sealed_by_transitions_is_linear_witness:
  "statusOf (exampleDb CREATED) ''s1'' = Some CREATED
   \<and> statusOf (last (states (exampleDb CREATED)
        [PatchShipment ''s1'' (UpdateShipmentDto (Some RECORDING)),
         PatchShipment ''s1'' (UpdateShipmentDto (Some PROCESSING)),
         PatchShipment ''s1'' (UpdateShipmentDto (Some SEALED))])) ''s1'' = Some SEALED
   \<and> statusHistory (exampleDb CREATED)
        [PatchShipment ''s1'' (UpdateShipmentDto (Some RECORDING)),
         PatchShipment ''s1'' (UpdateShipmentDto (Some PROCESSING)),
         PatchShipment ''s1'' (UpdateShipmentDto (Some SEALED))] ''s1''
       = [Some CREATED, Some RECORDING, Some PROCESSING, Some SEALED]"
  using sealed_by_transitions_is_linear[of "exampleDb CREATED" "[]" "''s1''"
      "[(''s1'', UpdateShipmentDto (Some RECORDING)), (''s1'', UpdateShipmentDto (Some PROCESSING)),
        (''s1'', UpdateShipmentDto (Some SEALED))]"]
  by (simp add: example_updates exampleDb_status)

text \<open>
  Claim C6 as stated fails: a shipment that is created and then receives an upload goes
  from \<open>CREATED\<close> to \<open>SEALED\<close> and is never in \<open>RECORDING\<close> or \<open>PROCESSING\<close>.
\<close>

theorem sealed_without_recording_counterexample:
  "statusHistory emptyDb
     [PostShipment ''s1'' (CreateShipmentDto ''AWB1'' ''org-A'') ''u1'',
      PostVideoUpload (exampleEnv SendOk) (UploadVideoDto ''s1'') exampleFile ''u1''] ''s1''
     = [None, Some CREATED, Some SEALED]"
  by (simp add: statusHistory_def example_create example_upload exampleDb_status)
     (simp add: statusOf_def ShipmentsRepository_findById_def emptyDb_def exampleShipment_def)

end
